theory Spec2Isabelle
  imports Main
begin

section \<open>The build orchestration of \<^verbatim>\<open>python/perspective/setup.py\<close>\<close>

text \<open>
  The development embeds the two packaging commands of the file: \<^verbatim>\<open>PSPBuild\<close>
  (probe CMake, assemble the configure and build argument lists, run the two steps) and
  \<^verbatim>\<open>PSPCheckSDist\<close> (the artifact check before a source distribution).
  Exceptions are values of \<open>py_error\<close>; everything a command does to the outside
  (processes started, paths probed, text written to the inherited standard output) is
  recorded in an explicit \<open>state\<close>. What the standard library and the host decide
  (\<^verbatim>\<open>os.path\<close>, \<^verbatim>\<open>os.environ\<close>, \<^verbatim>\<open>platform.system()\<close>,
  \<^verbatim>\<open>shutil.which\<close>, the behaviour of a started process) is a field of the
  record \<open>host\<close>, so every theorem holds for all of them.
\<close>

subsection \<open>Python strings\<close>

definition backslash :: char where
  "backslash = CHR 0x5C"

definition newline :: char where
  "newline = CHR 0x0A"

text \<open>\<^verbatim>\<open>s.replace("\\", "/")\<close>: both strings are one character long.\<close>

definition replace_backslash :: "string \<Rightarrow> string" where
  "replace_backslash s = map (\<lambda>c. if c = backslash then CHR ''/'' else c) s"

text \<open>\<^verbatim>\<open>str(n)\<close> of a non-negative integer, as \<^verbatim>\<open>"{}".format(n)\<close> prints it.\<close>

definition digit_char :: "nat \<Rightarrow> char" where
  "digit_char d = ''0123456789'' ! d"

fun show_nat :: "nat \<Rightarrow> string" where
  "show_nat n =
     (if n < 10 then [digit_char n]
      else show_nat (n div 10) @ [digit_char (n mod 10)])"

declare show_nat.simps [simp del]

text \<open>\<^verbatim>\<open>"{}".format(CPU_COUNT)\<close>: \<^verbatim>\<open>os.cpu_count()\<close> is an integer or \<^verbatim>\<open>None\<close>.\<close>

definition show_count :: "nat option \<Rightarrow> string" where
  "show_count c = (case c of None \<Rightarrow> ''None'' | Some n \<Rightarrow> show_nat n)"

text \<open>\<^verbatim>\<open>sep.join(xs)\<close>.\<close>

fun str_join :: "string \<Rightarrow> string list \<Rightarrow> string" where
  "str_join sep [] = []"
| "str_join sep [x] = x"
| "str_join sep (x # y # ys) = x @ sep @ str_join sep (y # ys)"

text \<open>\<^verbatim>\<open>s.upper()\<close> on ASCII text (it is applied to \<^verbatim>\<open>cfg\<close> only).\<close>

definition to_upper :: "char \<Rightarrow> char" where
  "to_upper c =
     (case map_of (zip ''abcdefghijklmnopqrstuvwxyz'' ''ABCDEFGHIJKLMNOPQRSTUVWXYZ'') c of
        Some u \<Rightarrow> u
      | None \<Rightarrow> c)"

definition str_upper :: "string \<Rightarrow> string" where
  "str_upper s = map to_upper s"

subsection \<open>The version banner: \<^verbatim>\<open>re.search\<close> and \<^verbatim>\<open>LooseVersion\<close>\<close>

text \<open>
  The pattern is \<^verbatim>\<open>version\s*([\d.]+)\<close>. On text of code points below 256,
  \<^verbatim>\<open>\s\<close> of a Python 3 string pattern matches the characters below and
  \<^verbatim>\<open>\d\<close> the ten ASCII digits. The banner is modelled as the decoded text.
\<close>

definition is_space :: "char \<Rightarrow> bool" where
  "is_space c \<longleftrightarrow>
     c \<in> set [CHR 0x09, CHR 0x0A, CHR 0x0B, CHR 0x0C, CHR 0x0D, CHR 0x1C, CHR 0x1D,
              CHR 0x1E, CHR 0x1F, CHR 0x20, CHR 0x85, CHR 0xA0]"

definition is_digit :: "char \<Rightarrow> bool" where
  "is_digit c \<longleftrightarrow> c \<in> set ''0123456789''"

text \<open>The value of a digit: its position among the ten digits.\<close>

definition digit_val :: "char \<Rightarrow> nat" where
  "digit_val c = length (takeWhile (\<lambda>d. d \<noteq> c) ''0123456789'')"

definition is_digit_dot :: "char \<Rightarrow> bool" where
  "is_digit_dot c \<longleftrightarrow> is_digit c \<or> c = CHR ''.''"

text \<open>
  One attempt of the pattern at the start of \<open>s\<close>: the literal, then as much white space
  as there is, then as many digits and dots as there are, at least one. Giving white
  space back can not help, since no white space character is a digit or a dot.
\<close>

definition match_here :: "string \<Rightarrow> string option" where
  "match_here s =
     (if take 7 s = ''version'' then
        (let g = takeWhile is_digit_dot (dropWhile is_space (drop 7 s))
         in if g = [] then None else Some g)
      else None)"

text \<open>\<^verbatim>\<open>re.search(...)\<close>: the leftmost position where the pattern matches; the
  result is \<^verbatim>\<open>group(1)\<close>, and \<open>None\<close> where \<^verbatim>\<open>re.search\<close> returns
  \<^verbatim>\<open>None\<close>.\<close>

fun re_search :: "string \<Rightarrow> string option" where
  "re_search [] = None"
| "re_search (c # cs) =
     (case match_here (c # cs) of Some g \<Rightarrow> Some g | None \<Rightarrow> re_search cs)"

text \<open>
  \<^verbatim>\<open>LooseVersion(v).version\<close> for a string of digits and dots (every match of
  \<^verbatim>\<open>[\d.]+\<close> and the literal \<^verbatim>\<open>"3.1.0"\<close> are such strings): the maximal
  runs of digits, each read as an integer; the dots are dropped. The first argument is
  the run being read.
\<close>

fun loose_parse :: "nat option \<Rightarrow> string \<Rightarrow> nat list" where
  "loose_parse acc [] = (case acc of None \<Rightarrow> [] | Some n \<Rightarrow> [n])"
| "loose_parse acc (c # cs) =
     (if is_digit c then
        loose_parse (Some (10 * (case acc of None \<Rightarrow> 0 | Some n \<Rightarrow> n) + digit_val c)) cs
      else (case acc of None \<Rightarrow> [] | Some n \<Rightarrow> [n]) @ loose_parse None cs)"

definition LooseVersion :: "string \<Rightarrow> nat list" where
  "LooseVersion v = loose_parse None v"

text \<open>Python's \<^verbatim>\<open><\<close> on two lists of integers.\<close>

fun list_lt :: "nat list \<Rightarrow> nat list \<Rightarrow> bool" where
  "list_lt [] [] = False"
| "list_lt [] (y # ys) = True"
| "list_lt (x # xs) [] = False"
| "list_lt (x # xs) (y # ys) = (if x = y then list_lt xs ys else x < y)"

subsection \<open>Errors, host and state\<close>

text \<open>
  \<open>CalledProcessError rc cmd output\<close> has the three attributes of the Python exception;
  \<open>PyException\<close> is the plain \<^verbatim>\<open>Exception(msg)\<close> of \<^verbatim>\<open>run_check\<close>.
\<close>

datatype py_error =
    RuntimeError string
  | CalledProcessError int "string list" "string option"
  | OSError
  | TypeError
  | AttributeError
  | PyException string

text \<open>One call of \<^verbatim>\<open>subprocess\<close>: the arguments, the working directory, the
  environment, and the two redirections.\<close>

record proc_call =
  call_argv :: "string list"
  call_cwd :: "string option"
  call_env :: "(string \<rightharpoonup> string) option"
  call_stderr_to_stdout :: bool
  call_capture_stdout :: bool

text \<open>
  What a call does: the executable can not be started (\<^verbatim>\<open>OSError\<close>), or the
  process runs and exits with a status, having written a text to its standard output
  (with standard error in it when the call merges them) and changed which paths exist.
\<close>

datatype proc_outcome =
    SpawnError
  | Exited int string "(string \<Rightarrow> bool) \<Rightarrow> (string \<Rightarrow> bool)"

text \<open>\<^verbatim>\<open>distutils.msvccompiler.get_build_version()\<close> returns a number; the table
  of \<^verbatim>\<open>build_extension_cmake\<close> is keyed by strings.\<close>

datatype build_version = BVStr string | BVNum nat nat

record host =
  platform_system :: string
  environ :: "string \<rightharpoonup> string"
  CPU_COUNT :: "nat option"
  version_major :: nat
  version_minor :: nat
  sys_executable :: string
  sys_prefix :: string
  sys_maxsize :: int
  which :: "string \<Rightarrow> string option"
  get_build_version :: build_version
  here :: string
  path_join :: "string \<Rightarrow> string list \<Rightarrow> string"
  path_abspath :: "string \<Rightarrow> string"
  path_dirname :: "string \<Rightarrow> string"
  spawn :: "proc_call list \<Rightarrow> proc_call \<Rightarrow> proc_outcome"

text \<open>
  \<open>spawned\<close>: the processes started so far, oldest first; \<open>probed\<close>: the arguments of
  \<^verbatim>\<open>os.path.exists\<close> so far, oldest first; \<open>terminal\<close>: the text on the inherited
  standard output.
\<close>

record state =
  spawned :: "proc_call list"
  probed :: "string list"
  exists_path :: "string \<Rightarrow> bool"
  terminal :: string

record psp_extension =
  ext_name :: string
  sourcedir :: string

record psp_build =
  cmake_cmd :: "string option"
  debug :: bool
  build_temp :: string
  extensions :: "psp_extension list"
  get_ext_fullpath :: "string \<Rightarrow> string"

definition PSPExtension :: "host \<Rightarrow> string \<Rightarrow> string \<Rightarrow> psp_extension" where
  "PSPExtension h name srcdir = \<lparr>ext_name = name, sourcedir = path_abspath h srcdir\<rparr>"

subsection \<open>\<^verbatim>\<open>subprocess.check_output\<close> and \<^verbatim>\<open>subprocess.check_call\<close>\<close>

text \<open>
  An argument list with \<^verbatim>\<open>None\<close> in it (\<^verbatim>\<open>which\<close> found nothing) raises
  \<^verbatim>\<open>TypeError\<close> before anything is started. \<^verbatim>\<open>check_output\<close> captures the
  standard output and returns it; its \<^verbatim>\<open>CalledProcessError\<close> carries it.
\<close>

definition output_call :: "string list \<Rightarrow> proc_call" where
  "output_call argv =
     \<lparr>call_argv = argv, call_cwd = None, call_env = None,
      call_stderr_to_stdout = False, call_capture_stdout = True\<rparr>"

definition check_output ::
  "host \<Rightarrow> string option list \<Rightarrow> state \<Rightarrow> (py_error + string) \<times> state" where
  "check_output h args s =
     (case those args of
        None \<Rightarrow> (Inl TypeError, s)
      | Some argv \<Rightarrow>
          (let c = output_call argv
           in case spawn h (spawned s) c of
                SpawnError \<Rightarrow> (Inl OSError, s)
              | Exited rc out eff \<Rightarrow>
                  (let s' = s\<lparr>spawned := spawned s @ [c], exists_path := eff (exists_path s)\<rparr>
                   in if rc \<noteq> 0 then (Inl (CalledProcessError rc argv (Some out)), s')
                      else (Inr out, s'))))"

text \<open>
  \<^verbatim>\<open>check_call(cmd, cwd=..., env=..., stderr=subprocess.STDOUT)\<close>: the process
  inherits the standard output, so its text goes to the terminal; the
  \<^verbatim>\<open>CalledProcessError\<close> of \<^verbatim>\<open>check_call\<close> is built from the status and the
  command alone, its \<^verbatim>\<open>output\<close> is \<^verbatim>\<open>None\<close>.
\<close>

definition merged_call :: "string list \<Rightarrow> string \<Rightarrow> (string \<rightharpoonup> string) \<Rightarrow> proc_call" where
  "merged_call argv cwd env =
     \<lparr>call_argv = argv, call_cwd = Some cwd, call_env = Some env,
      call_stderr_to_stdout = True, call_capture_stdout = False\<rparr>"

definition check_call ::
  "host \<Rightarrow> string option list \<Rightarrow> string \<Rightarrow> (string \<rightharpoonup> string) \<Rightarrow> state
     \<Rightarrow> (py_error + unit) \<times> state" where
  "check_call h args cwd env s =
     (case those args of
        None \<Rightarrow> (Inl TypeError, s)
      | Some argv \<Rightarrow>
          (let c = merged_call argv cwd env
           in case spawn h (spawned s) c of
                SpawnError \<Rightarrow> (Inl OSError, s)
              | Exited rc out eff \<Rightarrow>
                  (let s' = s\<lparr>spawned := spawned s @ [c], exists_path := eff (exists_path s),
                              terminal := terminal s @ out\<rparr>
                   in if rc \<noteq> 0 then (Inl (CalledProcessError rc argv None), s')
                      else (Inr (), s'))))"

subsection \<open>\<^verbatim>\<open>PSPBuild.build_extension_cmake\<close>\<close>

definition cfg_of :: "psp_build \<Rightarrow> string" where
  "cfg_of self = (if debug self then ''Debug'' else ''Release'')"

definition PYTHON_VERSION :: "host \<Rightarrow> string" where
  "PYTHON_VERSION h = show_nat (version_major h) @ ''.'' @ show_nat (version_minor h)"

definition extdir_of :: "host \<Rightarrow> psp_build \<Rightarrow> psp_extension \<Rightarrow> string" where
  "extdir_of h self ext = path_abspath h (path_dirname h (get_ext_fullpath self (ext_name ext)))"

text \<open>The list literal of lines 163 to 187.\<close>

definition cmake_args_common :: "host \<Rightarrow> psp_build \<Rightarrow> psp_extension \<Rightarrow> string list" where
  "cmake_args_common h self ext =
     [''-DCMAKE_LIBRARY_OUTPUT_DIRECTORY=''
        @ replace_backslash
            (path_abspath h (path_join h (extdir_of h self ext) [''perspective'', ''table''])),
      ''-DCMAKE_BUILD_TYPE='' @ cfg_of self,
      ''-DPSP_CPP_BUILD=1'',
      ''-DPSP_WASM_BUILD=0'',
      ''-DPSP_PYTHON_BUILD=1'',
      ''-DPSP_PYTHON_VERSION='' @ PYTHON_VERSION h,
      ''-DPython_ADDITIONAL_VERSIONS='' @ PYTHON_VERSION h,
      ''-DPython_FIND_VERSION='' @ PYTHON_VERSION h,
      replace_backslash (''-DPython_EXECUTABLE='' @ sys_executable h),
      replace_backslash (''-DPython_ROOT_DIR='' @ sys_prefix h),
      replace_backslash (''-DPython_ROOT='' @ sys_prefix h),
      replace_backslash (''-DPSP_CMAKE_MODULE_PATH='' @ path_join h (sourcedir ext) [''cmake'']),
      replace_backslash (''-DPSP_CPP_SRC='' @ sourcedir ext),
      ''-DPSP_PYTHON_SRC=''
        @ replace_backslash (path_join h (sourcedir ext) [''..'', ''perspective''])]"

text \<open>The generator table with its default, and the override by \<^verbatim>\<open>PSP_GENERATOR\<close>.\<close>

definition msvc :: "host \<Rightarrow> string" where
  "msvc h =
     (case map_of [(BVStr ''12'', ''Visual Studio 12 2013''),
                   (BVStr ''14'', ''Visual Studio 14 2015''),
                   (BVStr ''14.1'', ''Visual Studio 15 2017'')] (get_build_version h) of
        Some g \<Rightarrow> g
      | None \<Rightarrow> ''Visual Studio 15 2017'')"

definition generator :: "host \<Rightarrow> string" where
  "generator h = (case environ h ''PSP_GENERATOR'' of Some g \<Rightarrow> g | None \<Rightarrow> msvc h)"

definition cmake_args :: "host \<Rightarrow> psp_build \<Rightarrow> psp_extension \<Rightarrow> string list" where
  "cmake_args h self ext =
     (if platform_system h = ''Windows'' then
        cmake_args_common h self ext
        @ [replace_backslash
             (''-DCMAKE_LIBRARY_OUTPUT_DIRECTORY_'' @ str_upper (cfg_of self) @ ''=''
                @ extdir_of h self ext),
           ''-G'',
           generator h]
        @ (if sys_maxsize h > 2 ^ 32 then [''-A'', ''x64''] else [])
      else cmake_args_common h self ext @ [''-DCMAKE_BUILD_TYPE='' @ cfg_of self])"

text \<open>\<^verbatim>\<open>os.environ.get("DOCKER", "")\<close> as a condition: true for a value that is not
  the empty string.\<close>

definition docker_flag :: "host \<Rightarrow> bool" where
  "docker_flag h = (case environ h ''DOCKER'' of None \<Rightarrow> False | Some v \<Rightarrow> v \<noteq> [])"

definition build_args :: "host \<Rightarrow> psp_build \<Rightarrow> string list" where
  "build_args h self =
     (if platform_system h = ''Windows'' then
        [''--config'', cfg_of self]
        @ [''--'', ''/m:'' @ show_count (CPU_COUNT h), ''/p:Configuration='' @ cfg_of self]
      else
        [''--config'', cfg_of self]
        @ [''--'', if docker_flag h then ''-j2'' else ''-j'' @ show_count (CPU_COUNT h)])"

text \<open>\<^verbatim>\<open>env = os.environ.copy()\<close> and the two assignments.\<close>

definition build_env :: "host \<Rightarrow> (string \<rightharpoonup> string)" where
  "build_env h = (environ h)(''PSP_ENABLE_PYTHON'' \<mapsto> ''1'', ''OSX_DEPLOYMENT_TARGET'' \<mapsto> ''10.9'')"

text \<open>\<^verbatim>\<open>os.path.exists(p)\<close>, recorded; \<^verbatim>\<open>os.makedirs(p)\<close>, taken to succeed.\<close>

definition path_exists :: "string \<Rightarrow> state \<Rightarrow> bool \<times> state" where
  "path_exists p s = (exists_path s p, s\<lparr>probed := probed s @ [p]\<rparr>)"

definition makedirs :: "string \<Rightarrow> state \<Rightarrow> state" where
  "makedirs p s = s\<lparr>exists_path := (exists_path s)(p := True)\<rparr>"

definition configure_argv :: "host \<Rightarrow> psp_build \<Rightarrow> psp_extension \<Rightarrow> string option list" where
  "configure_argv h self ext =
     [cmake_cmd self, Some (path_abspath h (sourcedir ext))] @ map Some (cmake_args h self ext)"

definition build_argv :: "host \<Rightarrow> psp_build \<Rightarrow> string option list" where
  "build_argv h self = [cmake_cmd self, Some ''--build'', Some ''.''] @ map Some (build_args h self)"

text \<open>Lines 230 and 231: create the build directory unless it exists.\<close>

definition ensure_build_temp :: "psp_build \<Rightarrow> state \<Rightarrow> state" where
  "ensure_build_temp self s =
     (let (there, s1) = path_exists (build_temp self) s
      in if \<not> there then makedirs (build_temp self) s1 else s1)"

definition build_extension_cmake ::
  "host \<Rightarrow> psp_build \<Rightarrow> psp_extension \<Rightarrow> state \<Rightarrow> (py_error + unit) \<times> state" where
  "build_extension_cmake h self ext s =
     (let env = build_env h;
          s2 = ensure_build_temp self s
      in case check_call h (configure_argv h self ext) (build_temp self) env s2 of
           (Inl e, s3) \<Rightarrow> (Inl e, s3)
         | (Inr u, s3) \<Rightarrow>
             (case check_call h (build_argv h self) (build_temp self) env s3 of
                (Inl e, s4) \<Rightarrow> (Inl e, s4)
              | (Inr u', s4) \<Rightarrow> (Inr (), s4\<lparr>terminal := terminal s4 @ [newline]\<rparr>)))"

subsection \<open>\<^verbatim>\<open>PSPBuild.run_cmake\<close>\<close>

fun build_all ::
  "host \<Rightarrow> psp_build \<Rightarrow> psp_extension list \<Rightarrow> state \<Rightarrow> (py_error + unit) \<times> state" where
  "build_all h self [] s = (Inr (), s)"
| "build_all h self (ext # exts) s =
     (case build_extension_cmake h self ext s of
        (Inl e, s') \<Rightarrow> (Inl e, s')
      | (Inr u, s') \<Rightarrow> build_all h self exts s')"

definition cmake_missing_msg :: "psp_build \<Rightarrow> string" where
  "cmake_missing_msg self =
     ''CMake must be installed to build the following extensions: ''
       @ str_join '', '' (map ext_name (extensions self))"

definition cmake_too_old_msg :: string where
  "cmake_too_old_msg = ''CMake >= 3.1.0 is required on Windows''"

text \<open>Lines 147 to 152: only on Windows is the banner read at all.\<close>

definition check_version :: "host \<Rightarrow> string \<Rightarrow> py_error + unit" where
  "check_version h out =
     (if platform_system h = ''Windows'' then
        (case re_search out of
           None \<Rightarrow> Inl AttributeError
         | Some g \<Rightarrow>
             if list_lt (LooseVersion g) (LooseVersion ''3.1.0'')
             then Inl (RuntimeError cmake_too_old_msg)
             else Inr ())
      else Inr ())"

definition run_cmake :: "host \<Rightarrow> psp_build \<Rightarrow> state \<Rightarrow> (py_error + unit) \<times> state" where
  "run_cmake h self0 s =
     (let self = self0\<lparr>cmake_cmd := which h ''cmake''\<rparr>
      in case check_output h [cmake_cmd self, Some ''--version''] s of
           (Inl e, s1) \<Rightarrow>
             (if e = OSError then (Inl (RuntimeError (cmake_missing_msg self)), s1)
              else (Inl e, s1))
         | (Inr out, s1) \<Rightarrow>
             (case check_version h out of
                Inl e \<Rightarrow> (Inl e, s1)
              | Inr u \<Rightarrow> build_all h self (extensions self) s1))"

subsection \<open>\<^verbatim>\<open>PSPCheckSDist.run_check\<close>\<close>

definition missing_cmake_msg :: "string \<Rightarrow> string" where
  "missing_cmake_msg path =
     ''Path is missing! '' @ path @ [newline]
       @ ''Must run `yarn build_python` before building sdist so cmake files are installed''"

definition missing_js_msg :: "string \<Rightarrow> string" where
  "missing_js_msg path =
     ''Path is missing! '' @ path @ [newline]
       @ ''Must run `yarn build_js` before building sdist so extension js files are installed''"

text \<open>\<^verbatim>\<open>os.path.abspath(os.path.join(here, dir, file))\<close>.\<close>

definition artifact_path :: "host \<Rightarrow> string \<Rightarrow> string \<Rightarrow> string" where
  "artifact_path h dir file = path_abspath h (path_join h (here h) [dir, file])"

text \<open>One \<^verbatim>\<open>for file in (...)\<close> loop: \<open>dir\<close> is the directory under \<^verbatim>\<open>here\<close>,
  \<open>msg\<close> the message of the loop's \<^verbatim>\<open>raise\<close>.\<close>

fun check_files ::
  "host \<Rightarrow> string \<Rightarrow> (string \<Rightarrow> string) \<Rightarrow> string list \<Rightarrow> state
     \<Rightarrow> (py_error + unit) \<times> state" where
  "check_files h dir msg [] s = (Inr (), s)"
| "check_files h dir msg (file # files) s =
     (let path = artifact_path h dir file;
          (there, s1) = path_exists path s
      in if \<not> there then (Inl (PyException (msg path)), s1)
         else check_files h dir msg files s1)"

definition run_check :: "host \<Rightarrow> state \<Rightarrow> (py_error + unit) \<times> state" where
  "run_check h s =
     (case check_files h ''dist'' missing_cmake_msg [''CMakeLists.txt'', ''cmake'', ''src''] s of
        (Inl e, s1) \<Rightarrow> (Inl e, s1)
      | (Inr u, s1) \<Rightarrow>
          check_files h ''perspective'' missing_js_msg
            [''labextension/package.json'', ''nbextension/index.js''] s1)"

text \<open>
  The five requirements in the order the two loops visit them, each with the phase whose
  command the loop's message names.
\<close>

datatype phase = NativeBuild | ScriptBuild

definition remedy :: "phase \<Rightarrow> string" where
  "remedy ph = (case ph of NativeBuild \<Rightarrow> ''yarn build_python'' | ScriptBuild \<Rightarrow> ''yarn build_js'')"

definition installed :: "phase \<Rightarrow> string" where
  "installed ph = (case ph of NativeBuild \<Rightarrow> ''cmake'' | ScriptBuild \<Rightarrow> ''extension js'')"

definition requirements :: "host \<Rightarrow> (string \<times> phase) list" where
  "requirements h =
     map (\<lambda>f. (artifact_path h ''dist'' f, NativeBuild)) [''CMakeLists.txt'', ''cmake'', ''src'']
     @ map (\<lambda>f. (artifact_path h ''perspective'' f, ScriptBuild))
         [''labextension/package.json'', ''nbextension/index.js'']"

text \<open>
  The two calls of \<^verbatim>\<open>build_extension_cmake\<close> and the call of the version probe,
  for a \<^verbatim>\<open>cmake_cmd\<close> that is a string.
\<close>

definition configure_call :: "host \<Rightarrow> psp_build \<Rightarrow> psp_extension \<Rightarrow> string \<Rightarrow> proc_call" where
  "configure_call h self ext cmd =
     merged_call (cmd # path_abspath h (sourcedir ext) # cmake_args h self ext)
       (build_temp self) (build_env h)"

definition build_call :: "host \<Rightarrow> psp_build \<Rightarrow> string \<Rightarrow> proc_call" where
  "build_call h self cmd =
     merged_call (cmd # ''--build'' # ''.'' # build_args h self) (build_temp self) (build_env h)"

definition version_call :: "string \<Rightarrow> proc_call" where
  "version_call cmd = output_call [cmd, ''--version'']"

subsection \<open>Concrete hosts\<close>

text \<open>
  Two hosts on which the definitions are evaluated. \<open>join_posix\<close> is
  \<^verbatim>\<open>posixpath.join\<close>; \<open>join_nt\<close> is \<^verbatim>\<open>ntpath.join\<close> for components
  without a drive or a leading separator; \<open>dirname_of\<close> is \<^verbatim>\<open>dirname\<close> for the
  given separators, on paths below the root. \<^verbatim>\<open>abspath\<close> is the identity: the
  paths used are absolute and normalised. \<open>fake_tool\<close> is a scripted tool: it prints
  the banner for \<^verbatim>\<open>--version\<close> and exits with the three given statuses.
\<close>

definition join_posix :: "string \<Rightarrow> string list \<Rightarrow> string" where
  "join_posix a ps =
     foldl (\<lambda>path b. if take 1 b = ''/'' then b
                      else if path = [] \<or> last path = CHR ''/'' then path @ b
                      else path @ ''/'' @ b) a ps"

definition join_nt :: "string \<Rightarrow> string list \<Rightarrow> string" where
  "join_nt a ps =
     foldl (\<lambda>path b. if path \<noteq> [] \<and> last path \<notin> set [backslash, CHR ''/'', CHR '':'']
                      then path @ [backslash] @ b else path @ b) a ps"

definition dirname_of :: "char list \<Rightarrow> string \<Rightarrow> string" where
  "dirname_of seps p =
     (let head = rev (dropWhile (\<lambda>c. c \<notin> set seps) (rev p))
      in if \<exists>c \<in> set head. c \<notin> set seps
         then rev (dropWhile (\<lambda>c. c \<in> set seps) (rev head)) else head)"

definition fake_tool ::
  "string \<Rightarrow> int \<Rightarrow> int \<Rightarrow> int \<Rightarrow> proc_call list \<Rightarrow> proc_call \<Rightarrow> proc_outcome" where
  "fake_tool banner rc_version rc_configure rc_build hist c =
     (if ''--version'' \<in> set (call_argv c) then Exited rc_version banner (\<lambda>e. e)
      else if ''--build'' \<in> set (call_argv c) then Exited rc_build ''build log'' (\<lambda>e. e)
      else Exited rc_configure ''configure log'' (\<lambda>e. e))"

definition posix_host :: host where
  "posix_host =
     \<lparr>platform_system = ''Linux'',
      environ = [''HOME'' \<mapsto> ''/root''],
      CPU_COUNT = Some 8,
      version_major = 3,
      version_minor = 8,
      sys_executable = ''/usr/bin/python3'',
      sys_prefix = ''/usr'',
      sys_maxsize = 9223372036854775807,
      which = (\<lambda>x. if x = ''cmake'' then Some ''/usr/bin/cmake'' else None),
      get_build_version = BVNum 6 0,
      here = ''/repo/python/perspective'',
      path_join = join_posix,
      path_abspath = (\<lambda>p. p),
      path_dirname = dirname_of ''/'',
      spawn = fake_tool ''cmake version 3.18.4'' 0 0 0\<rparr>"

definition windows_host :: host where
  "windows_host =
     \<lparr>platform_system = ''Windows'',
      environ = [''USERNAME'' \<mapsto> ''dev''],
      CPU_COUNT = Some 8,
      version_major = 3,
      version_minor = 8,
      sys_executable = ''C:'' @ [backslash] @ ''Python38'' @ [backslash] @ ''python.exe'',
      sys_prefix = ''C:'' @ [backslash] @ ''Python38'',
      sys_maxsize = 9223372036854775807,
      which = (\<lambda>x. if x = ''cmake'' then Some ''C:/cmake/bin/cmake.exe'' else None),
      get_build_version = BVNum 14 2,
      here = ''C:'' @ [backslash] @ ''repo'',
      path_join = join_nt,
      path_abspath = (\<lambda>p. p),
      path_dirname = dirname_of [backslash, CHR ''/''],
      spawn = fake_tool ''cmake version 3.18.4'' 0 0 0\<rparr>"

text \<open>The same hosts with another system name, environment or tool.\<close>

definition posix_host_with ::
  "string \<Rightarrow> (string \<rightharpoonup> string) \<Rightarrow> (proc_call list \<Rightarrow> proc_call \<Rightarrow> proc_outcome) \<Rightarrow> host" where
  "posix_host_with p e t = posix_host\<lparr>platform_system := p, environ := e, spawn := t\<rparr>"

definition windows_host_with ::
  "(string \<rightharpoonup> string) \<Rightarrow> (proc_call list \<Rightarrow> proc_call \<Rightarrow> proc_outcome) \<Rightarrow> host" where
  "windows_host_with e t = windows_host\<lparr>environ := e, spawn := t\<rparr>"

text \<open>A state in which nothing has happened and exactly the listed paths exist.\<close>

definition state0 :: "string list \<Rightarrow> state" where
  "state0 paths =
     \<lparr>spawned = [], probed = [], exists_path = (\<lambda>p. p \<in> set paths), terminal = []\<rparr>"

definition posix_ext :: psp_extension where
  "posix_ext = PSPExtension posix_host ''perspective'' ''/repo/python/perspective/dist''"

definition windows_ext :: psp_extension where
  "windows_ext =
     PSPExtension windows_host ''perspective''
       (''C:'' @ [backslash] @ ''repo'' @ [backslash] @ ''dist'')"

definition posix_build :: psp_build where
  "posix_build =
     \<lparr>cmake_cmd = Some ''/usr/bin/cmake'', debug = False, build_temp = ''build/temp'',
      extensions = [posix_ext],
      get_ext_fullpath = (\<lambda>n. ''/repo/python/perspective/build/lib/'' @ n @ ''.so'')\<rparr>"

definition windows_build :: psp_build where
  "windows_build =
     \<lparr>cmake_cmd = Some ''C:/cmake/bin/cmake.exe'', debug = False, build_temp = ''build/temp'',
      extensions = [windows_ext],
      get_ext_fullpath =
        (\<lambda>n. ''C:'' @ [backslash] @ ''repo'' @ [backslash] @ ''build'' @ [backslash] @ n @ ''.pyd'')\<rparr>"

section \<open>Properties\<close>

subsection \<open>The artifact check\<close>

lemma check_files_find:
  "check_files h dir msg files s =
     (let ps = map (artifact_path h dir) files
      in case find (\<lambda>p. \<not> exists_path s p) ps of
           None \<Rightarrow> (Inr (), s\<lparr>probed := probed s @ ps\<rparr>)
         | Some p \<Rightarrow>
             (Inl (PyException (msg p)),
              s\<lparr>probed := probed s @ takeWhile (exists_path s) ps @ [p]\<rparr>))"
proof (induction files arbitrary: s)
  case Nil
  show ?case by simp
next
  case (Cons f fs)
  show ?case
    by (simp add: Cons.IH path_exists_def Let_def split: option.splits)
qed

lemma find_append_case:
  "find P (xs @ ys) = (case find P xs of None \<Rightarrow> find P ys | Some x \<Rightarrow> Some x)"
  by (induction xs) auto

lemma find_tagged:
  "find (\<lambda>r. \<not> E (fst r)) (map (\<lambda>p. (p, c)) xs)
     = map_option (\<lambda>p. (p, c)) (find (\<lambda>p. \<not> E p) xs)"
  by (induction xs) auto

lemma takeWhile_tagged:
  "map fst (takeWhile (\<lambda>r. E (fst r)) (map (\<lambda>p. (p, c)) xs)) = takeWhile E xs"
  by (induction xs) auto

lemma takeWhile_append_case:
  "takeWhile P (xs @ ys) =
     (case find (\<lambda>x. \<not> P x) xs of None \<Rightarrow> xs @ takeWhile P ys | Some x \<Rightarrow> takeWhile P xs)"
  by (induction xs) (auto split: option.splits)

lemma run_check_find:
  "run_check h s =
     (let A = map (artifact_path h ''dist'') [''CMakeLists.txt'', ''cmake'', ''src''];
          B = map (artifact_path h ''perspective'')
                [''labextension/package.json'', ''nbextension/index.js'']
      in case find (\<lambda>p. \<not> exists_path s p) A of
           Some p \<Rightarrow>
             (Inl (PyException (missing_cmake_msg p)),
              s\<lparr>probed := probed s @ takeWhile (exists_path s) A @ [p]\<rparr>)
         | None \<Rightarrow>
             (case find (\<lambda>p. \<not> exists_path s p) B of
                Some p \<Rightarrow>
                  (Inl (PyException (missing_js_msg p)),
                   s\<lparr>probed := probed s @ A @ takeWhile (exists_path s) B @ [p]\<rparr>)
              | None \<Rightarrow> (Inr (), s\<lparr>probed := probed s @ A @ B\<rparr>)))"
  unfolding run_check_def check_files_find Let_def
  by (simp split: option.splits)

lemma requirements_tagged:
  "requirements h =
     map (\<lambda>p. (p, NativeBuild))
       (map (artifact_path h ''dist'') [''CMakeLists.txt'', ''cmake'', ''src''])
     @ map (\<lambda>p. (p, ScriptBuild))
         (map (artifact_path h ''perspective'')
            [''labextension/package.json'', ''nbextension/index.js''])"
  by (simp add: requirements_def)

text \<open>
  C6. When at least one of the five required paths is missing, \<^verbatim>\<open>run_check\<close>
  raises for the first missing one in the order of the two loops: the message names that
  path and the command of its phase (\<^verbatim>\<open>yarn build_python\<close> for the three paths
  under \<^verbatim>\<open>dist\<close>, \<^verbatim>\<open>yarn build_js\<close> for the two extension files), and the
  paths probed are the present ones before it and the missing one itself, no later one.
\<close>

theorem run_check_first_missing:
  assumes "find (\<lambda>r. \<not> exists_path s (fst r)) (requirements h) = Some (p, ph)"
  shows "run_check h s =
           (Inl (PyException
                  (''Path is missing! '' @ p @ [newline] @ ''Must run `'' @ remedy ph
                     @ ''` before building sdist so '' @ installed ph @ '' files are installed'')),
            s\<lparr>probed := probed s
                 @ map fst (takeWhile (\<lambda>r. exists_path s (fst r)) (requirements h)) @ [p]\<rparr>)"
proof -
  define A where "A = map (artifact_path h ''dist'') [''CMakeLists.txt'', ''cmake'', ''src'']"
  define B where "B = map (artifact_path h ''perspective'')
                        [''labextension/package.json'', ''nbextension/index.js'']"
  have req: "requirements h = map (\<lambda>p. (p, NativeBuild)) A @ map (\<lambda>p. (p, ScriptBuild)) B"
    unfolding A_def B_def by (rule requirements_tagged)
  have rc: "run_check h s =
     (case find (\<lambda>p. \<not> exists_path s p) A of
           Some p \<Rightarrow>
             (Inl (PyException (missing_cmake_msg p)),
              s\<lparr>probed := probed s @ takeWhile (exists_path s) A @ [p]\<rparr>)
         | None \<Rightarrow>
             (case find (\<lambda>p. \<not> exists_path s p) B of
                Some p \<Rightarrow>
                  (Inl (PyException (missing_js_msg p)),
                   s\<lparr>probed := probed s @ A @ takeWhile (exists_path s) B @ [p]\<rparr>)
              | None \<Rightarrow> (Inr (), s\<lparr>probed := probed s @ A @ B\<rparr>)))"
    unfolding A_def B_def run_check_find Let_def ..
  have tw: "map fst (takeWhile (\<lambda>r. exists_path s (fst r)) (requirements h)) =
      (case find (\<lambda>p. \<not> exists_path s p) A of
         None \<Rightarrow> A @ takeWhile (exists_path s) B
       | Some x \<Rightarrow> takeWhile (exists_path s) A)"
    unfolding req takeWhile_append_case
    by (simp add: find_tagged takeWhile_tagged comp_def split: option.splits)
  show ?thesis
  proof (cases "find (\<lambda>p. \<not> exists_path s p) A")
    case (Some q)
    with assms have "p = q" "ph = NativeBuild"
      by (simp_all add: req find_append_case find_tagged)
    with Some show ?thesis
      by (simp add: rc tw remedy_def installed_def missing_cmake_msg_def)
  next
    case None
    with assms obtain q where q: "find (\<lambda>p. \<not> exists_path s p) B = Some q"
      and "p = q" "ph = ScriptBuild"
      by (auto simp add: req find_append_case find_tagged)
    with None show ?thesis
      by (simp add: rc tw remedy_def installed_def missing_js_msg_def)
  qed
qed

theorem run_check_first_missing_witness:
  "find (\<lambda>r. \<not> exists_path (state0 [''/repo/python/perspective/dist/CMakeLists.txt'',
                                       ''/repo/python/perspective/dist/cmake'',
                                       ''/repo/python/perspective/dist/src'']) (fst r))
     (requirements posix_host)
     = Some (''/repo/python/perspective/perspective/labextension/package.json'', ScriptBuild)
   \<and> fst (run_check posix_host
            (state0 [''/repo/python/perspective/dist/CMakeLists.txt'',
                     ''/repo/python/perspective/dist/cmake'',
                     ''/repo/python/perspective/dist/src'']))
     = Inl (PyException
             (''Path is missing! /repo/python/perspective/perspective/labextension/package.json''
                @ [newline]
                @ ''Must run `yarn build_js` before building sdist so extension js files are installed''))
   \<and> probed (snd (run_check posix_host
            (state0 [''/repo/python/perspective/dist/CMakeLists.txt'',
                     ''/repo/python/perspective/dist/cmake'',
                     ''/repo/python/perspective/dist/src''])))
     = [''/repo/python/perspective/dist/CMakeLists.txt'',
        ''/repo/python/perspective/dist/cmake'',
        ''/repo/python/perspective/dist/src'',
        ''/repo/python/perspective/perspective/labextension/package.json'']"
proof -
  have h: "find (\<lambda>r. \<not> exists_path (state0 [''/repo/python/perspective/dist/CMakeLists.txt'',
                                       ''/repo/python/perspective/dist/cmake'',
                                       ''/repo/python/perspective/dist/src'']) (fst r))
     (requirements posix_host)
     = Some (''/repo/python/perspective/perspective/labextension/package.json'', ScriptBuild)"
    by (simp add: requirements_def artifact_path_def posix_host_def join_posix_def state0_def)
  show ?thesis
    using h run_check_first_missing [OF h]
    by (simp add: remedy_def installed_def requirements_def artifact_path_def posix_host_def
          join_posix_def state0_def)
qed

subsection \<open>The argument lists\<close>

lemma replace_backslash_free: "backslash \<notin> set (replace_backslash s)"
  by (auto simp add: replace_backslash_def backslash_def)

lemma show_nat_digits: "set (show_nat n) \<subseteq> set ''0123456789''"
proof (induction n rule: show_nat.induct)
  case (1 n)
  have d: "\<And>k::nat. k < 10 \<Longrightarrow> digit_char k \<in> set ''0123456789''"
    unfolding digit_char_def by (rule nth_mem) simp
  show ?case
  proof (cases "n < 10")
    case True
    then show ?thesis using d [of n] by (simp add: show_nat.simps [of n])
  next
    case False
    have "n mod 10 < 10" by simp
    with False 1 d [of "n mod 10"] show ?thesis
      by (simp add: show_nat.simps [of n])
  qed
qed

lemma show_nat_backslash_free: "backslash \<notin> set (show_nat n)"
  using show_nat_digits [of n] by (auto simp add: backslash_def)

lemma cfg_of_backslash_free: "backslash \<notin> set (cfg_of self)"
  by (simp add: cfg_of_def backslash_def)

lemma PYTHON_VERSION_backslash_free: "backslash \<notin> set (PYTHON_VERSION h)"
  by (simp add: PYTHON_VERSION_def show_nat_backslash_free) (simp add: backslash_def)

lemma literal_prefixes_backslash_free:
  "backslash \<notin> set ''-DCMAKE_LIBRARY_OUTPUT_DIRECTORY=''"
  "backslash \<notin> set ''-DCMAKE_BUILD_TYPE=''"
  "backslash \<notin> set ''-DPSP_CPP_BUILD=1''"
  "backslash \<notin> set ''-DPSP_WASM_BUILD=0''"
  "backslash \<notin> set ''-DPSP_PYTHON_BUILD=1''"
  "backslash \<notin> set ''-DPSP_PYTHON_VERSION=''"
  "backslash \<notin> set ''-DPython_ADDITIONAL_VERSIONS=''"
  "backslash \<notin> set ''-DPython_FIND_VERSION=''"
  "backslash \<notin> set ''-DPSP_PYTHON_SRC=''"
  "backslash \<notin> set ''-G''"
  "backslash \<notin> set ''-A''"
  "backslash \<notin> set ''x64''"
  "backslash \<notin> set ''Visual Studio 12 2013''"
  "backslash \<notin> set ''Visual Studio 14 2015''"
  "backslash \<notin> set ''Visual Studio 15 2017''"
  by (simp_all add: backslash_def)

lemma cmake_args_common_backslash_free:
  "list_all (\<lambda>a. backslash \<notin> set a) (cmake_args_common h self ext)"
  by (simp only: cmake_args_common_def list.pred_inject set_append Un_iff de_Morgan_disj
        replace_backslash_free cfg_of_backslash_free PYTHON_VERSION_backslash_free
        literal_prefixes_backslash_free simp_thms)

lemma msvc_backslash_free: "backslash \<notin> set (msvc h)"
  unfolding msvc_def
  by (cases "get_build_version h")
     (auto simp add: literal_prefixes_backslash_free simp del: set_simps list.set)


lemma generator_backslash:
  "backslash \<in> set (generator h) \<Longrightarrow> environ h ''PSP_GENERATOR'' = Some (generator h)"
  by (auto simp add: generator_def msvc_backslash_free split: option.splits)

text \<open>
  Where a backslash in \<^verbatim>\<open>cmake_args\<close> can come from: only from the generator name
  after \<^verbatim>\<open>-G\<close> on Windows, and only when \<^verbatim>\<open>PSP_GENERATOR\<close> holds it. Every
  element built from a path goes through \<^verbatim>\<open>replace\<close>.
\<close>

lemma cmake_args_backslash_origin:
  assumes "a \<in> set (cmake_args h self ext)" and "backslash \<in> set a"
  shows "platform_system h = ''Windows'' \<and> environ h ''PSP_GENERATOR'' = Some a"
proof -
  have common: "a \<notin> set (cmake_args_common h self ext)"
    using cmake_args_common_backslash_free [of h self ext] assms(2)
    by (auto simp add: list_all_iff)
  show ?thesis
  proof (cases "platform_system h = ''Windows''")
    case False
    with assms(1) common have "a = ''-DCMAKE_BUILD_TYPE='' @ cfg_of self"
      by (simp add: cmake_args_def)
    with assms(2) show ?thesis
      using cfg_of_backslash_free [of self] literal_prefixes_backslash_free(2) by auto
  next
    case True
    with assms(1) common have
      "a = replace_backslash (''-DCMAKE_LIBRARY_OUTPUT_DIRECTORY_'' @ str_upper (cfg_of self)
             @ ''='' @ extdir_of h self ext)
       \<or> a = ''-G'' \<or> a = generator h \<or> a = ''-A'' \<or> a = ''x64''"
      by (auto simp add: cmake_args_def split: if_splits)
    with assms(2) have "a = generator h"
      using replace_backslash_free literal_prefixes_backslash_free(10,11,12) by blast
    with assms(2) True show ?thesis using generator_backslash [of h] by simp
  qed
qed

lemma generator_unset_backslash_free:
  "environ h ''PSP_GENERATOR'' = None \<Longrightarrow> backslash \<notin> set (generator h)"
  by (simp add: generator_def msvc_backslash_free)

lemma generator_on_windows:
  "platform_system h = ''Windows'' \<Longrightarrow> environ h ''PSP_GENERATOR'' = Some g \<Longrightarrow> generator h = g"
  by (simp add: generator_def)

text \<open>
  C4. On every host and for all paths (the output directory, the source directory, the
  executable and the root of the runtime, and whatever \<^verbatim>\<open>os.path\<close> makes of them),
  no element of the configure parameter list \<^verbatim>\<open>cmake_args\<close> contains a backslash.
  The generator name given after \<^verbatim>\<open>-G\<close> on Windows is not a path: it is taken to be
  free of backslashes, as the three names of the table are and as it is whenever
  \<^verbatim>\<open>PSP_GENERATOR\<close> is unset.
\<close>

theorem config_parameters_backslash_free:
  assumes "platform_system h \<noteq> ''Windows'' \<or> backslash \<notin> set (generator h)"
  shows "\<forall>a \<in> set (cmake_args h self ext). backslash \<notin> set a"
proof
  fix a
  assume a: "a \<in> set (cmake_args h self ext)"
  show "backslash \<notin> set a"
  proof
    assume b: "backslash \<in> set a"
    from cmake_args_backslash_origin [OF a b]
    have w: "platform_system h = ''Windows''" and g: "environ h ''PSP_GENERATOR'' = Some a"
      by simp_all
    from generator_on_windows [OF w g] have "generator h = a" .
    with assms w b show False by simp
  qed
qed

theorem config_parameters_backslash_free_witness:
  "list_all (\<lambda>a. backslash \<notin> set a) (cmake_args windows_host windows_build windows_ext)
   \<and> list_all (\<lambda>a. backslash \<notin> set a)
        (cmake_args (windows_host_with [''PSP_GENERATOR'' \<mapsto> ''Ninja'']
                       (fake_tool ''cmake version 3.18.4'' 0 0 0))
           windows_build windows_ext)
   \<and> list_all (\<lambda>a. backslash \<notin> set a) (cmake_args posix_host posix_build posix_ext)
   \<and> backslash \<in> set (sys_executable windows_host)
   \<and> backslash \<in> set (sys_prefix windows_host)
   \<and> backslash \<in> set (sourcedir windows_ext)
   \<and> backslash \<in> set (extdir_of windows_host windows_build windows_ext)"
proof -
  let ?n = "windows_host_with [''PSP_GENERATOR'' \<mapsto> ''Ninja'']
              (fake_tool ''cmake version 3.18.4'' 0 0 0)"
  have w: "platform_system windows_host \<noteq> ''Windows'' \<or> backslash \<notin> set (generator windows_host)"
    by (simp add: generator_unset_backslash_free windows_host_def)
  have n: "platform_system ?n \<noteq> ''Windows'' \<or> backslash \<notin> set (generator ?n)"
    by (simp add: generator_def windows_host_with_def backslash_def)
  have p: "platform_system posix_host \<noteq> ''Windows'' \<or> backslash \<notin> set (generator posix_host)"
    by (simp add: posix_host_def)
  have 1: "list_all (\<lambda>a. backslash \<notin> set a) (cmake_args windows_host windows_build windows_ext)"
    using config_parameters_backslash_free [OF w, of windows_build windows_ext]
    by (simp add: list_all_iff)
  have 2: "list_all (\<lambda>a. backslash \<notin> set a) (cmake_args ?n windows_build windows_ext)"
    using config_parameters_backslash_free [OF n, of windows_build windows_ext]
    by (simp add: list_all_iff)
  have 3: "list_all (\<lambda>a. backslash \<notin> set a) (cmake_args posix_host posix_build posix_ext)"
    using config_parameters_backslash_free [OF p, of posix_build posix_ext]
    by (simp add: list_all_iff)
  have 4: "backslash \<in> set (sys_executable windows_host)"
    "backslash \<in> set (sys_prefix windows_host)"
    by (simp_all add: windows_host_def)
  have 5: "backslash \<in> set (sourcedir windows_ext)"
    by (simp add: windows_ext_def PSPExtension_def windows_host_def)
  have 6: "backslash \<in> set (extdir_of windows_host windows_build windows_ext)"
    by (simp add: extdir_of_def windows_host_def windows_build_def windows_ext_def
          PSPExtension_def dirname_of_def backslash_def)
  from 1 2 3 4 5 6 show ?thesis by blast
qed

text \<open>
  The parameters are the tail of the configure command. Its second argument, the source
  directory of line 234, is not one of them: it is the result of
  \<^verbatim>\<open>os.path.abspath\<close> as it is.
\<close>

lemma configure_command_layout:
  "call_argv (configure_call h self ext cmd)
     = cmd # path_abspath h (sourcedir ext) # cmake_args h self ext"
  by (simp add: configure_call_def merged_call_def)

text \<open>
  C10. On a host that is not Windows, exactly two elements of \<^verbatim>\<open>cmake_args\<close> are
  the build-type parameter, and both carry the same value: \<^verbatim>\<open>Debug\<close> when the
  debug flag is set, \<^verbatim>\<open>Release\<close> otherwise.
\<close>

theorem posix_build_type_twice:
  assumes "platform_system h \<noteq> ''Windows''"
  shows "filter (\<lambda>a. take 19 a = ''-DCMAKE_BUILD_TYPE='') (cmake_args h self ext) =
           [''-DCMAKE_BUILD_TYPE='' @ (if debug self then ''Debug'' else ''Release''),
            ''-DCMAKE_BUILD_TYPE='' @ (if debug self then ''Debug'' else ''Release'')]"
  using assms
  by (simp add: cmake_args_def cmake_args_common_def cfg_of_def replace_backslash_def
        backslash_def)

theorem posix_build_type_twice_witness:
  "platform_system posix_host \<noteq> ''Windows''
   \<and> filter (\<lambda>a. take 19 a = ''-DCMAKE_BUILD_TYPE='') (cmake_args posix_host posix_build posix_ext)
       = [''-DCMAKE_BUILD_TYPE=Release'', ''-DCMAKE_BUILD_TYPE=Release'']
   \<and> filter (\<lambda>a. take 19 a = ''-DCMAKE_BUILD_TYPE='')
         (cmake_args posix_host (posix_build\<lparr>debug := True\<rparr>) posix_ext)
       = [''-DCMAKE_BUILD_TYPE=Debug'', ''-DCMAKE_BUILD_TYPE=Debug'']"
proof -
  have p: "platform_system posix_host \<noteq> ''Windows''"
    by (simp add: posix_host_def)
  show ?thesis
    using p posix_build_type_twice [OF p, of posix_build posix_ext]
      posix_build_type_twice [OF p, of "posix_build\<lparr>debug := True\<rparr>" posix_ext]
    by (simp add: posix_build_def)
qed

subsection \<open>The job count\<close>

text \<open>
  C3 (as amended). On a host that is not Windows the last build argument is
  \<^verbatim>\<open>-j2\<close> when \<^verbatim>\<open>DOCKER\<close> is set to a text that is not empty, and
  \<^verbatim>\<open>-j\<close> with the CPU count when it is unset or empty. On Windows the argument is
  \<^verbatim>\<open>/m:\<close> with the CPU count, whatever \<^verbatim>\<open>DOCKER\<close> is.
\<close>

theorem job_count_flag:
  "(platform_system h \<noteq> ''Windows'' \<and> environ h ''DOCKER'' = Some v \<and> v \<noteq> []
      \<longrightarrow> build_args h self = [''--config'', cfg_of self, ''--'', ''-j2''])
   \<and> (platform_system h \<noteq> ''Windows'' \<and> environ h ''DOCKER'' \<in> {None, Some []}
          \<and> CPU_COUNT h = Some n
      \<longrightarrow> build_args h self = [''--config'', cfg_of self, ''--'', ''-j'' @ show_nat n])
   \<and> (platform_system h = ''Windows'' \<and> CPU_COUNT h = Some n
      \<longrightarrow> build_args h self =
            [''--config'', cfg_of self, ''--'', ''/m:'' @ show_nat n,
             ''/p:Configuration='' @ cfg_of self])"
  by (auto simp add: build_args_def docker_flag_def show_count_def)

theorem job_count_flag_witness:
  "build_args (posix_host\<lparr>environ := [''DOCKER'' \<mapsto> ''1'']\<rparr>) posix_build
     = [''--config'', ''Release'', ''--'', ''-j2'']
   \<and> build_args posix_host posix_build = [''--config'', ''Release'', ''--'', ''-j8'']
   \<and> build_args (posix_host\<lparr>environ := [''DOCKER'' \<mapsto> []]\<rparr>) posix_build
     = [''--config'', ''Release'', ''--'', ''-j8'']
   \<and> build_args windows_host windows_build
     = [''--config'', ''Release'', ''--'', ''/m:8'', ''/p:Configuration=Release'']"
proof -
  have 1: "build_args (posix_host\<lparr>environ := [''DOCKER'' \<mapsto> ''1'']\<rparr>) posix_build
     = [''--config'', ''Release'', ''--'', ''-j2'']"
    using job_count_flag [where h = "posix_host\<lparr>environ := [''DOCKER'' \<mapsto> ''1'']\<rparr>"
        and v = "''1''" and self = posix_build and n = 8]
    by (simp add: posix_host_def posix_build_def cfg_of_def)
  have 2: "build_args posix_host posix_build = [''--config'', ''Release'', ''--'', ''-j8'']"
    using job_count_flag [where h = posix_host and v = "''1''" and self = posix_build and n = 8]
    by (simp add: posix_host_def posix_build_def cfg_of_def show_nat.simps digit_char_def)
  have 3: "build_args (posix_host\<lparr>environ := [''DOCKER'' \<mapsto> []]\<rparr>) posix_build
     = [''--config'', ''Release'', ''--'', ''-j8'']"
    using job_count_flag [where h = "posix_host\<lparr>environ := [''DOCKER'' \<mapsto> []]\<rparr>"
        and v = "''1''" and self = posix_build and n = 8]
    by (simp add: posix_host_def posix_build_def cfg_of_def show_nat.simps digit_char_def)
  have 4: "build_args windows_host windows_build
     = [''--config'', ''Release'', ''--'', ''/m:8'', ''/p:Configuration=Release'']"
    using job_count_flag [where h = windows_host and v = "''1''" and self = windows_build and n = 8]
    by (simp add: windows_host_def windows_build_def cfg_of_def show_nat.simps digit_char_def)
  from 1 2 3 4 show ?thesis by blast
qed

text \<open>
  On Windows with \<^verbatim>\<open>DOCKER=1\<close> and eight CPUs the build step is given
  \<^verbatim>\<open>/m:8\<close>, not a degree of two.
\<close>

theorem windows_docker_counterexample:
  "platform_system (windows_host\<lparr>environ := [''DOCKER'' \<mapsto> ''1'']\<rparr>) = ''Windows''
   \<and> environ (windows_host\<lparr>environ := [''DOCKER'' \<mapsto> ''1'']\<rparr>) ''DOCKER'' = Some ''1''
   \<and> CPU_COUNT (windows_host\<lparr>environ := [''DOCKER'' \<mapsto> ''1'']\<rparr>) = Some 8
   \<and> build_args (windows_host\<lparr>environ := [''DOCKER'' \<mapsto> ''1'']\<rparr>) windows_build
       = [''--config'', ''Release'', ''--'', ''/m:8'', ''/p:Configuration=Release'']"
  by (simp add: build_args_def windows_host_def windows_build_def cfg_of_def show_count_def
        show_nat.simps digit_char_def)

subsection \<open>The two steps\<close>

lemma those_map_Some: "those (map Some xs) = Some xs"
  by (induction xs) simp_all

lemma check_call_Some:
  "check_call h (map Some argv) cwd env s =
     (case spawn h (spawned s) (merged_call argv cwd env) of
        SpawnError \<Rightarrow> (Inl OSError, s)
      | Exited rc out eff \<Rightarrow>
          (if rc \<noteq> 0 then Inl (CalledProcessError rc argv None) else Inr (),
           s\<lparr>spawned := spawned s @ [merged_call argv cwd env],
              exists_path := eff (exists_path s),
              terminal := terminal s @ out\<rparr>))"
  by (simp add: check_call_def those_map_Some Let_def split: proc_outcome.splits)

lemma check_call_None: "check_call h (None # args) cwd env s = (Inl TypeError, s)"
  by (simp add: check_call_def)

lemma ensure_build_temp_same [simp]:
  "spawned (ensure_build_temp self s) = spawned s"
  "terminal (ensure_build_temp self s) = terminal s"
  by (simp_all add: ensure_build_temp_def path_exists_def makedirs_def)

lemma configure_argv_Some:
  "cmake_cmd self = Some cmd \<Longrightarrow>
     configure_argv h self ext = map Some (call_argv (configure_call h self ext cmd))"
  by (simp add: configure_argv_def configure_call_def merged_call_def)

lemma build_argv_Some:
  "cmake_cmd self = Some cmd \<Longrightarrow>
     build_argv h self = map Some (call_argv (build_call h self cmd))"
  by (simp add: build_argv_def build_call_def merged_call_def)

lemma configure_call_merged:
  "merged_call (call_argv (configure_call h self ext cmd)) (build_temp self) (build_env h)
     = configure_call h self ext cmd"
  by (simp add: configure_call_def merged_call_def)

lemma build_call_merged:
  "merged_call (call_argv (build_call h self cmd)) (build_temp self) (build_env h)
     = build_call h self cmd"
  by (simp add: build_call_def merged_call_def)

text \<open>What \<^verbatim>\<open>build_extension_cmake\<close> does, by the outcomes of its two calls.\<close>

lemma build_extension_cmake_None:
  "cmake_cmd self = None \<Longrightarrow>
     build_extension_cmake h self ext s = (Inl TypeError, ensure_build_temp self s)"
  by (simp add: build_extension_cmake_def configure_argv_def check_call_None)

lemma build_extension_cmake_Some:
  assumes "cmake_cmd self = Some cmd"
  shows "build_extension_cmake h self ext s =
     (let s2 = ensure_build_temp self s;
          cc = configure_call h self ext cmd;
          bc = build_call h self cmd
      in case spawn h (spawned s) cc of
           SpawnError \<Rightarrow> (Inl OSError, s2)
         | Exited rc out eff \<Rightarrow>
             (let s3 = s2\<lparr>spawned := spawned s @ [cc], exists_path := eff (exists_path s2),
                          terminal := terminal s @ out\<rparr>
              in if rc \<noteq> 0 then (Inl (CalledProcessError rc (call_argv cc) None), s3)
                 else (case spawn h (spawned s @ [cc]) bc of
                         SpawnError \<Rightarrow> (Inl OSError, s3)
                       | Exited rc' out' eff' \<Rightarrow>
                           (let s4 = s3\<lparr>spawned := spawned s @ [cc, bc],
                                        exists_path := eff' (exists_path s3),
                                        terminal := terminal s @ out @ out'\<rparr>
                            in if rc' \<noteq> 0
                               then (Inl (CalledProcessError rc' (call_argv bc) None), s4)
                               else (Inr (), s4\<lparr>terminal := terminal s4 @ [newline]\<rparr>)))))"
  unfolding build_extension_cmake_def Let_def configure_argv_Some [OF assms]
    build_argv_Some [OF assms] check_call_Some configure_call_merged build_call_merged
  by (simp split: proc_outcome.splits)


lemma configure_call_not_build_call: "configure_call h self ext cmd \<noteq> build_call h self cmd"
proof
  assume "configure_call h self ext cmd = build_call h self cmd"
  then have "call_argv (configure_call h self ext cmd) = call_argv (build_call h self cmd)"
    by simp
  then have "hd (cmake_args h self ext) = ''.''"
    by (simp add: configure_call_def build_call_def merged_call_def cmake_args_def
          cmake_args_common_def split: if_splits)
  then show False
    by (simp add: cmake_args_def cmake_args_common_def split: if_splits)
qed

text \<open>The calls of the two concrete builds, evaluated.\<close>

lemma posix_cmake_args:
  "p \<noteq> ''Windows'' \<Longrightarrow>
   cmake_args (posix_host_with p e t) posix_build posix_ext =
     [''-DCMAKE_LIBRARY_OUTPUT_DIRECTORY=/repo/python/perspective/build/lib/perspective/table'',
      ''-DCMAKE_BUILD_TYPE=Release'', ''-DPSP_CPP_BUILD=1'', ''-DPSP_WASM_BUILD=0'',
      ''-DPSP_PYTHON_BUILD=1'', ''-DPSP_PYTHON_VERSION=3.8'',
      ''-DPython_ADDITIONAL_VERSIONS=3.8'', ''-DPython_FIND_VERSION=3.8'',
      ''-DPython_EXECUTABLE=/usr/bin/python3'', ''-DPython_ROOT_DIR=/usr'',
      ''-DPython_ROOT=/usr'', ''-DPSP_CMAKE_MODULE_PATH=/repo/python/perspective/dist/cmake'',
      ''-DPSP_CPP_SRC=/repo/python/perspective/dist'',
      ''-DPSP_PYTHON_SRC=/repo/python/perspective/dist/../perspective'',
      ''-DCMAKE_BUILD_TYPE=Release'']"
  by (simp add: cmake_args_def cmake_args_common_def posix_host_with_def posix_host_def posix_build_def posix_ext_def
        PSPExtension_def extdir_of_def dirname_of_def join_posix_def cfg_of_def
        PYTHON_VERSION_def show_nat.simps digit_char_def replace_backslash_def backslash_def generator_def)


lemma posix_build_args:
  "p \<noteq> ''Windows'' \<Longrightarrow> e ''DOCKER'' = None \<Longrightarrow>
   build_args (posix_host_with p e t) posix_build =
     [''--config'', ''Release'', ''--'', ''-j8'']"
  by (simp add: build_args_def posix_host_with_def posix_host_def posix_build_def cfg_of_def docker_flag_def
        show_count_def show_nat.simps digit_char_def)

lemma posix_configure_call:
  "p \<noteq> ''Windows'' \<Longrightarrow>
   configure_call (posix_host_with p e t) posix_build posix_ext
       ''/usr/bin/cmake'' =
     merged_call
       (''/usr/bin/cmake'' # ''/repo/python/perspective/dist''
          # cmake_args (posix_host_with p e t) posix_build posix_ext)
       ''build/temp''
       (e(''PSP_ENABLE_PYTHON'' \<mapsto> ''1'', ''OSX_DEPLOYMENT_TARGET'' \<mapsto> ''10.9''))"
  by (simp add: configure_call_def build_env_def)
     (simp add: posix_host_with_def posix_host_def posix_build_def posix_ext_def PSPExtension_def)

lemma fake_tool_configure:
  "p \<noteq> ''Windows'' \<Longrightarrow>
   fake_tool b rv rc rb hist
     (configure_call (posix_host_with p e t) posix_build posix_ext
        ''/usr/bin/cmake'')
     = Exited rc ''configure log'' (\<lambda>e. e)"
  by (simp add: posix_configure_call posix_cmake_args fake_tool_def merged_call_def)

lemma fake_tool_build:
  "fake_tool b rv rc rb hist (build_call h self cmd) =
     (if cmd = ''--version'' \<or> ''--version'' \<in> set (build_args h self)
      then Exited rv b (\<lambda>e. e) else Exited rb ''build log'' (\<lambda>e. e))"
  by (simp add: fake_tool_def build_call_def merged_call_def)


text \<open>
  C5. When the configure process exits with a status that is not zero,
  \<^verbatim>\<open>build_extension_cmake\<close> raises and the only process it has started is the
  configure call: the build call, a different call, is not started.
\<close>

theorem configure_failure_short_circuits:
  assumes "cmake_cmd self = Some cmd"
    and "spawn h (spawned s) (configure_call h self ext cmd) = Exited rc out eff"
    and "rc \<noteq> 0"
  shows "fst (build_extension_cmake h self ext s)
           = Inl (CalledProcessError rc (call_argv (configure_call h self ext cmd)) None)
         \<and> spawned (snd (build_extension_cmake h self ext s))
           = spawned s @ [configure_call h self ext cmd]
         \<and> build_call h self cmd
           \<notin> set (drop (length (spawned s)) (spawned (snd (build_extension_cmake h self ext s))))"
  using assms configure_call_not_build_call [of h self ext cmd]
  by (simp add: build_extension_cmake_Some [OF assms(1)] Let_def)

theorem configure_failure_short_circuits_witness:
  "cmake_cmd posix_build = Some ''/usr/bin/cmake''
   \<and> spawn (posix_host_with ''Linux'' Map.empty (fake_tool ''cmake version 3.18.4'' 0 2 0)) []
         (configure_call (posix_host_with ''Linux'' Map.empty (fake_tool ''cmake version 3.18.4'' 0 2 0))
            posix_build posix_ext ''/usr/bin/cmake'')
       = Exited 2 ''configure log'' (\<lambda>e. e)
   \<and> map call_argv
         (spawned (snd (build_extension_cmake
            (posix_host_with ''Linux'' Map.empty (fake_tool ''cmake version 3.18.4'' 0 2 0))
            posix_build posix_ext (state0 []))))
       = [[''/usr/bin/cmake'', ''/repo/python/perspective/dist'',
           ''-DCMAKE_LIBRARY_OUTPUT_DIRECTORY=/repo/python/perspective/build/lib/perspective/table'',
           ''-DCMAKE_BUILD_TYPE=Release'', ''-DPSP_CPP_BUILD=1'', ''-DPSP_WASM_BUILD=0'',
           ''-DPSP_PYTHON_BUILD=1'', ''-DPSP_PYTHON_VERSION=3.8'',
           ''-DPython_ADDITIONAL_VERSIONS=3.8'', ''-DPython_FIND_VERSION=3.8'',
           ''-DPython_EXECUTABLE=/usr/bin/python3'', ''-DPython_ROOT_DIR=/usr'',
           ''-DPython_ROOT=/usr'', ''-DPSP_CMAKE_MODULE_PATH=/repo/python/perspective/dist/cmake'',
           ''-DPSP_CPP_SRC=/repo/python/perspective/dist'',
           ''-DPSP_PYTHON_SRC=/repo/python/perspective/dist/../perspective'',
           ''-DCMAKE_BUILD_TYPE=Release'']]"
proof -
  let ?h = "posix_host_with ''Linux'' Map.empty (fake_tool ''cmake version 3.18.4'' 0 2 0)"
  have sp: "spawn ?h = fake_tool ''cmake version 3.18.4'' 0 2 0"
    by (simp add: posix_host_with_def)
  have a: "cmake_cmd posix_build = Some ''/usr/bin/cmake''"
    by (simp add: posix_build_def)
  have b: "spawn ?h (spawned (state0 [])) (configure_call ?h posix_build posix_ext ''/usr/bin/cmake'')
             = Exited 2 ''configure log'' (\<lambda>e. e)"
    unfolding sp by (simp add: fake_tool_configure)
  have c: "(2::int) \<noteq> 0" by simp
  have d: "map call_argv [configure_call ?h posix_build posix_ext ''/usr/bin/cmake'']
             = [[''/usr/bin/cmake'', ''/repo/python/perspective/dist'',
           ''-DCMAKE_LIBRARY_OUTPUT_DIRECTORY=/repo/python/perspective/build/lib/perspective/table'',
           ''-DCMAKE_BUILD_TYPE=Release'', ''-DPSP_CPP_BUILD=1'', ''-DPSP_WASM_BUILD=0'',
           ''-DPSP_PYTHON_BUILD=1'', ''-DPSP_PYTHON_VERSION=3.8'',
           ''-DPython_ADDITIONAL_VERSIONS=3.8'', ''-DPython_FIND_VERSION=3.8'',
           ''-DPython_EXECUTABLE=/usr/bin/python3'', ''-DPython_ROOT_DIR=/usr'',
           ''-DPython_ROOT=/usr'', ''-DPSP_CMAKE_MODULE_PATH=/repo/python/perspective/dist/cmake'',
           ''-DPSP_CPP_SRC=/repo/python/perspective/dist'',
           ''-DPSP_PYTHON_SRC=/repo/python/perspective/dist/../perspective'',
           ''-DCMAKE_BUILD_TYPE=Release'']]"
    by (simp add: posix_configure_call posix_cmake_args merged_call_def)
  have e: "spawned (state0 []) = []" by (simp add: state0_def)
  from configure_failure_short_circuits [OF a b c] a b d e show ?thesis
    by simp
qed


text \<open>
  C1 (as amended). When the configure step or the build step exits with a status that is
  not zero, \<^verbatim>\<open>build_extension_cmake\<close> raises the \<^verbatim>\<open>CalledProcessError\<close> of
  \<^verbatim>\<open>check_call\<close>: it carries the status and the command of the failed step, and its
  output is \<^verbatim>\<open>None\<close>. The text the tool wrote is on the inherited standard output,
  not in the error.
\<close>

theorem step_failure_error:
  assumes "cmake_cmd self = Some cmd"
  shows "(spawn h (spawned s) (configure_call h self ext cmd) = Exited rc out eff \<and> rc \<noteq> 0
            \<longrightarrow> fst (build_extension_cmake h self ext s)
                  = Inl (CalledProcessError rc (call_argv (configure_call h self ext cmd)) None)
                \<and> terminal (snd (build_extension_cmake h self ext s)) = terminal s @ out)
         \<and> (spawn h (spawned s) (configure_call h self ext cmd) = Exited 0 out eff
              \<and> spawn h (spawned s @ [configure_call h self ext cmd]) (build_call h self cmd)
                  = Exited rc' out' eff'
              \<and> rc' \<noteq> 0
            \<longrightarrow> fst (build_extension_cmake h self ext s)
                  = Inl (CalledProcessError rc' (call_argv (build_call h self cmd)) None)
                \<and> terminal (snd (build_extension_cmake h self ext s)) = terminal s @ out @ out')"
  by (simp add: build_extension_cmake_Some [OF assms] Let_def)

theorem step_failure_error_witness:
  "fst (build_extension_cmake
          (posix_host_with ''Linux'' Map.empty (fake_tool ''cmake version 3.18.4'' 0 0 3))
          posix_build posix_ext (state0 []))
     = Inl (CalledProcessError 3
              [''/usr/bin/cmake'', ''--build'', ''.'', ''--config'', ''Release'', ''--'', ''-j8'']
              None)
   \<and> terminal (snd (build_extension_cmake
          (posix_host_with ''Linux'' Map.empty (fake_tool ''cmake version 3.18.4'' 0 0 3))
          posix_build posix_ext (state0 [])))
     = ''configure logbuild log''
   \<and> fst (build_extension_cmake
          (posix_host_with ''Linux'' Map.empty (fake_tool ''cmake version 3.18.4'' 0 4 0))
          posix_build posix_ext (state0 []))
     = Inl (CalledProcessError 4
              (call_argv (configure_call
                 (posix_host_with ''Linux'' Map.empty (fake_tool ''cmake version 3.18.4'' 0 4 0))
                 posix_build posix_ext ''/usr/bin/cmake''))
              None)
   \<and> terminal (snd (build_extension_cmake
          (posix_host_with ''Linux'' Map.empty (fake_tool ''cmake version 3.18.4'' 0 4 0))
          posix_build posix_ext (state0 [])))
     = ''configure log''"
proof -
  let ?g = "posix_host_with ''Linux'' Map.empty (fake_tool ''cmake version 3.18.4'' 0 4 0)"
  have sg: "spawn ?g = fake_tool ''cmake version 3.18.4'' 0 4 0"
    by (simp add: posix_host_with_def)
  have g: "spawn ?g (spawned (state0 [])) (configure_call ?g posix_build posix_ext ''/usr/bin/cmake'')
             = Exited 4 ''configure log'' (\<lambda>e. e)"
    unfolding sg by (simp add: fake_tool_configure)
  let ?h = "posix_host_with ''Linux'' Map.empty (fake_tool ''cmake version 3.18.4'' 0 0 3)"
  have sp: "spawn ?h = fake_tool ''cmake version 3.18.4'' 0 0 3"
    by (simp add: posix_host_with_def)
  have a: "cmake_cmd posix_build = Some ''/usr/bin/cmake''"
    by (simp add: posix_build_def)
  have ba: "build_args ?h posix_build = [''--config'', ''Release'', ''--'', ''-j8'']"
    by (simp add: posix_build_args)
  have b: "spawn ?h (spawned (state0 [])) (configure_call ?h posix_build posix_ext ''/usr/bin/cmake'')
             = Exited 0 ''configure log'' (\<lambda>e. e)"
    unfolding sp by (simp add: fake_tool_configure)
  have c: "spawn ?h (spawned (state0 []) @ [configure_call ?h posix_build posix_ext ''/usr/bin/cmake''])
             (build_call ?h posix_build ''/usr/bin/cmake'')
             = Exited 3 ''build log'' (\<lambda>e. e)"
    unfolding sp by (simp add: fake_tool_build ba)
  have d: "call_argv (build_call ?h posix_build ''/usr/bin/cmake'')
             = [''/usr/bin/cmake'', ''--build'', ''.'', ''--config'', ''Release'', ''--'', ''-j8'']"
    by (simp add: build_call_def merged_call_def ba)
  have e: "terminal (state0 []) = []" by (simp add: state0_def)
  from step_failure_error [OF a, where h = ?h and s = "state0 []" and ext = posix_ext
      and rc' = 3 and out = "''configure log''" and eff = "\<lambda>e. e" and out' = "''build log''"
      and eff' = "\<lambda>e. e"]
    step_failure_error [OF a, where h = ?g and s = "state0 []" and ext = posix_ext
      and rc = 4 and out = "''configure log''" and eff = "\<lambda>e. e"] b c d e g
  show ?thesis by simp
qed

text \<open>
  A tool that prints \<^verbatim>\<open>configure log\<close> and exits with status 1 on the configure
  step: the error raised holds the status and the command and no output; the text is on
  the terminal.
\<close>

theorem error_without_output_counterexample:
  "fst (build_extension_cmake
          (posix_host_with ''Linux'' Map.empty (fake_tool ''cmake version 3.18.4'' 0 1 0))
          posix_build posix_ext (state0 []))
     = Inl (CalledProcessError 1
              [''/usr/bin/cmake'', ''/repo/python/perspective/dist'',
               ''-DCMAKE_LIBRARY_OUTPUT_DIRECTORY=/repo/python/perspective/build/lib/perspective/table'',
               ''-DCMAKE_BUILD_TYPE=Release'', ''-DPSP_CPP_BUILD=1'', ''-DPSP_WASM_BUILD=0'',
               ''-DPSP_PYTHON_BUILD=1'', ''-DPSP_PYTHON_VERSION=3.8'',
               ''-DPython_ADDITIONAL_VERSIONS=3.8'', ''-DPython_FIND_VERSION=3.8'',
               ''-DPython_EXECUTABLE=/usr/bin/python3'', ''-DPython_ROOT_DIR=/usr'',
               ''-DPython_ROOT=/usr'',
               ''-DPSP_CMAKE_MODULE_PATH=/repo/python/perspective/dist/cmake'',
               ''-DPSP_CPP_SRC=/repo/python/perspective/dist'',
               ''-DPSP_PYTHON_SRC=/repo/python/perspective/dist/../perspective'',
               ''-DCMAKE_BUILD_TYPE=Release'']
              None)
   \<and> terminal (snd (build_extension_cmake
          (posix_host_with ''Linux'' Map.empty (fake_tool ''cmake version 3.18.4'' 0 1 0))
          posix_build posix_ext (state0 [])))
     = ''configure log''"
proof -
  let ?h = "posix_host_with ''Linux'' Map.empty (fake_tool ''cmake version 3.18.4'' 0 1 0)"
  have sp: "spawn ?h = fake_tool ''cmake version 3.18.4'' 0 1 0"
    by (simp add: posix_host_with_def)
  have a: "cmake_cmd posix_build = Some ''/usr/bin/cmake''"
    by (simp add: posix_build_def)
  have b: "spawn ?h (spawned (state0 [])) (configure_call ?h posix_build posix_ext ''/usr/bin/cmake'')
             = Exited 1 ''configure log'' (\<lambda>e. e)"
    unfolding sp by (simp add: fake_tool_configure)
  have d: "call_argv (configure_call ?h posix_build posix_ext ''/usr/bin/cmake'')
             = [''/usr/bin/cmake'', ''/repo/python/perspective/dist'',
               ''-DCMAKE_LIBRARY_OUTPUT_DIRECTORY=/repo/python/perspective/build/lib/perspective/table'',
               ''-DCMAKE_BUILD_TYPE=Release'', ''-DPSP_CPP_BUILD=1'', ''-DPSP_WASM_BUILD=0'',
               ''-DPSP_PYTHON_BUILD=1'', ''-DPSP_PYTHON_VERSION=3.8'',
               ''-DPython_ADDITIONAL_VERSIONS=3.8'', ''-DPython_FIND_VERSION=3.8'',
               ''-DPython_EXECUTABLE=/usr/bin/python3'', ''-DPython_ROOT_DIR=/usr'',
               ''-DPython_ROOT=/usr'',
               ''-DPSP_CMAKE_MODULE_PATH=/repo/python/perspective/dist/cmake'',
               ''-DPSP_CPP_SRC=/repo/python/perspective/dist'',
               ''-DPSP_PYTHON_SRC=/repo/python/perspective/dist/../perspective'',
               ''-DCMAKE_BUILD_TYPE=Release'']"
    by (simp add: posix_configure_call posix_cmake_args merged_call_def)
  have e: "terminal (state0 []) = []" by (simp add: state0_def)
  show ?thesis
    using b d e by (simp add: build_extension_cmake_Some [OF a] Let_def)
qed


lemma build_env_values:
  "build_env h ''OSX_DEPLOYMENT_TARGET'' = Some ''10.9''"
  "build_env h ''PSP_ENABLE_PYTHON'' = Some ''1''"
  "k \<noteq> ''OSX_DEPLOYMENT_TARGET'' \<Longrightarrow> k \<noteq> ''PSP_ENABLE_PYTHON'' \<Longrightarrow> build_env h k = environ h k"
  by (simp_all add: build_env_def)

lemma build_extension_cmake_calls:
  "\<exists>cs. spawned (snd (build_extension_cmake h self ext s)) = spawned s @ cs
        \<and> (\<forall>c \<in> set cs. call_env c = Some (build_env h))"
proof (cases "cmake_cmd self")
  case None
  then show ?thesis by (simp add: build_extension_cmake_None)
next
  case (Some cmd)
  have ce: "call_env (configure_call h self ext cmd) = Some (build_env h)"
    "call_env (build_call h self cmd) = Some (build_env h)"
    by (simp_all add: configure_call_def build_call_def merged_call_def)
  show ?thesis
    unfolding build_extension_cmake_Some [OF Some] Let_def
    by (auto simp add: ce split: proc_outcome.splits)
qed

text \<open>
  C9 (as amended). Every process \<^verbatim>\<open>build_extension_cmake\<close> starts is given an
  environment in which \<^verbatim>\<open>OSX_DEPLOYMENT_TARGET\<close> is \<^verbatim>\<open>10.9\<close> and
  \<^verbatim>\<open>PSP_ENABLE_PYTHON\<close> is \<^verbatim>\<open>1\<close>, on every host and whatever the ambient values
  of the two variables are; every other variable is handed on as it is in the ambient
  environment.
\<close>

theorem subprocess_environment:
  "\<forall>c \<in> set (drop (length (spawned s)) (spawned (snd (build_extension_cmake h self ext s)))).
     \<exists>e. call_env c = Some e
        \<and> e ''OSX_DEPLOYMENT_TARGET'' = Some ''10.9''
        \<and> e ''PSP_ENABLE_PYTHON'' = Some ''1''
        \<and> (\<forall>k. k \<noteq> ''OSX_DEPLOYMENT_TARGET'' \<and> k \<noteq> ''PSP_ENABLE_PYTHON'' \<longrightarrow> e k = environ h k)"
proof -
  obtain cs where cs: "spawned (snd (build_extension_cmake h self ext s)) = spawned s @ cs"
    and env: "\<forall>c \<in> set cs. call_env c = Some (build_env h)"
    using build_extension_cmake_calls by blast
  show ?thesis
    unfolding cs using env by (simp add: build_env_values)
qed


lemma posix_success_spawned:
  assumes "p \<noteq> ''Windows''" and "e ''DOCKER'' = None"
  shows "spawned (snd (build_extension_cmake (posix_host_with p e (fake_tool b rv 0 0))
                         posix_build posix_ext (state0 [])))
           = [configure_call (posix_host_with p e (fake_tool b rv 0 0)) posix_build posix_ext
                ''/usr/bin/cmake'',
              build_call (posix_host_with p e (fake_tool b rv 0 0)) posix_build ''/usr/bin/cmake'']"
proof -
  let ?h = "posix_host_with p e (fake_tool b rv 0 0)"
  have sp: "spawn ?h = fake_tool b rv 0 0"
    by (simp add: posix_host_with_def)
  have a: "cmake_cmd posix_build = Some ''/usr/bin/cmake''"
    by (simp add: posix_build_def)
  have ba: "build_args ?h posix_build = [''--config'', ''Release'', ''--'', ''-j8'']"
    using assms by (simp add: posix_build_args)
  show ?thesis
    using assms(1)
    by (simp add: build_extension_cmake_Some [OF a] Let_def sp fake_tool_configure
          fake_tool_build ba state0_def)
qed

theorem subprocess_environment_witness:
  "map (\<lambda>c. map_option (\<lambda>e. (e ''OSX_DEPLOYMENT_TARGET'', e ''PSP_ENABLE_PYTHON'', e ''HOME''))
              (call_env c))
     (spawned (snd (build_extension_cmake
        (posix_host_with ''Darwin'' [''HOME'' \<mapsto> ''/Users/dev'']
           (fake_tool ''cmake version 3.18.4'' 0 0 0))
        posix_build posix_ext (state0 []))))
   = [Some (Some ''10.9'', Some ''1'', Some ''/Users/dev''),
      Some (Some ''10.9'', Some ''1'', Some ''/Users/dev'')]"
proof -
  let ?h = "posix_host_with ''Darwin'' [''HOME'' \<mapsto> ''/Users/dev'']
              (fake_tool ''cmake version 3.18.4'' 0 0 0)"
  let ?cc = "configure_call ?h posix_build posix_ext ''/usr/bin/cmake''"
  let ?bc = "build_call ?h posix_build ''/usr/bin/cmake''"
  have sp: "spawned (snd (build_extension_cmake ?h posix_build posix_ext (state0 []))) = [?cc, ?bc]"
    by (rule posix_success_spawned) simp_all
  have s0: "spawned (state0 []) = []" by (simp add: state0_def)
  have home: "environ ?h ''HOME'' = Some ''/Users/dev''"
    by (simp add: posix_host_with_def)
  have all: "\<forall>c \<in> set [?cc, ?bc].
     \<exists>e. call_env c = Some e
        \<and> e ''OSX_DEPLOYMENT_TARGET'' = Some ''10.9''
        \<and> e ''PSP_ENABLE_PYTHON'' = Some ''1''
        \<and> (\<forall>k. k \<noteq> ''OSX_DEPLOYMENT_TARGET'' \<and> k \<noteq> ''PSP_ENABLE_PYTHON'' \<longrightarrow> e k = environ ?h k)"
    using subprocess_environment [of "state0 []" ?h posix_build posix_ext]
    unfolding sp s0 by simp
  have one: "\<And>c. c \<in> set [?cc, ?bc] \<Longrightarrow>
      map_option (\<lambda>e. (e ''OSX_DEPLOYMENT_TARGET'', e ''PSP_ENABLE_PYTHON'', e ''HOME'')) (call_env c)
        = Some (Some ''10.9'', Some ''1'', Some ''/Users/dev'')"
  proof -
    fix c assume "c \<in> set [?cc, ?bc]"
    with all obtain e where e: "call_env c = Some e" "e ''OSX_DEPLOYMENT_TARGET'' = Some ''10.9''"
      "e ''PSP_ENABLE_PYTHON'' = Some ''1''"
      "\<forall>k. k \<noteq> ''OSX_DEPLOYMENT_TARGET'' \<and> k \<noteq> ''PSP_ENABLE_PYTHON'' \<longrightarrow> e k = environ ?h k"
      by blast
    from e(4) have "e ''HOME'' = environ ?h ''HOME''" by simp
    with e home show "map_option (\<lambda>e. (e ''OSX_DEPLOYMENT_TARGET'', e ''PSP_ENABLE_PYTHON'', e ''HOME''))
        (call_env c) = Some (Some ''10.9'', Some ''1'', Some ''/Users/dev'')"
      by simp
  qed
  show ?thesis
    unfolding sp using one [of ?cc] one [of ?bc] by simp
qed

text \<open>
  On a Darwin host whose ambient \<^verbatim>\<open>OSX_DEPLOYMENT_TARGET\<close> is \<^verbatim>\<open>10.15\<close>, both
  processes are given \<^verbatim>\<open>10.9\<close>.
\<close>

theorem deployment_target_counterexample:
  "environ (posix_host_with ''Darwin'' [''OSX_DEPLOYMENT_TARGET'' \<mapsto> ''10.15'']
              (fake_tool ''cmake version 3.18.4'' 0 0 0)) ''OSX_DEPLOYMENT_TARGET''
     = Some ''10.15''
   \<and> map (\<lambda>c. Option.bind (call_env c) (\<lambda>e. e ''OSX_DEPLOYMENT_TARGET''))
       (spawned (snd (build_extension_cmake
          (posix_host_with ''Darwin'' [''OSX_DEPLOYMENT_TARGET'' \<mapsto> ''10.15'']
             (fake_tool ''cmake version 3.18.4'' 0 0 0))
          posix_build posix_ext (state0 []))))
     = [Some ''10.9'', Some ''10.9'']"
proof -
  let ?h = "posix_host_with ''Darwin'' [''OSX_DEPLOYMENT_TARGET'' \<mapsto> ''10.15'']
              (fake_tool ''cmake version 3.18.4'' 0 0 0)"
  have sp: "spawned (snd (build_extension_cmake ?h posix_build posix_ext (state0 [])))
      = [configure_call ?h posix_build posix_ext ''/usr/bin/cmake'',
         build_call ?h posix_build ''/usr/bin/cmake'']"
    by (rule posix_success_spawned) simp_all
  have amb: "environ ?h ''OSX_DEPLOYMENT_TARGET'' = Some ''10.15''"
    by (simp add: posix_host_with_def)
  show ?thesis
    unfolding sp using amb
    by (simp add: configure_call_def build_call_def merged_call_def build_env_def)
qed

subsection \<open>The version probe\<close>

lemma run_cmake_None:
  "which h ''cmake'' = None \<Longrightarrow> run_cmake h self s = (Inl TypeError, s)"
  by (simp add: run_cmake_def check_output_def)

text \<open>What \<^verbatim>\<open>run_cmake\<close> does when \<^verbatim>\<open>which\<close> finds a path, by the outcome of
  the probe.\<close>

lemma run_cmake_Some:
  assumes "which h ''cmake'' = Some cmd"
  shows "run_cmake h self s =
     (case spawn h (spawned s) (version_call cmd) of
        SpawnError \<Rightarrow> (Inl (RuntimeError (cmake_missing_msg self)), s)
      | Exited rc out eff \<Rightarrow>
          (let s1 = s\<lparr>spawned := spawned s @ [version_call cmd],
                       exists_path := eff (exists_path s)\<rparr>
           in if rc \<noteq> 0
              then (Inl (CalledProcessError rc [cmd, ''--version''] (Some out)), s1)
              else (case check_version h out of
                      Inl e \<Rightarrow> (Inl e, s1)
                    | Inr u \<Rightarrow>
                        build_all h (self\<lparr>cmake_cmd := Some cmd\<rparr>) (extensions self) s1)))"
  using assms
  by (simp add: run_cmake_def check_output_def version_call_def cmake_missing_msg_def Let_def
        split: proc_outcome.splits sum.splits)

text \<open>
  C2 (as amended). When the path found by \<^verbatim>\<open>which\<close> can not be started
  (\<^verbatim>\<open>OSError\<close>), \<^verbatim>\<open>run_cmake\<close> raises the \<^verbatim>\<open>RuntimeError\<close> that names
  CMake and the extensions, and no process has been started. When the probe runs and
  exits with a status that is not zero, \<^verbatim>\<open>run_cmake\<close> raises the
  \<^verbatim>\<open>CalledProcessError\<close> of \<^verbatim>\<open>check_output\<close> instead, and the probe is the
  only process started. In both cases no configure step runs.
\<close>

theorem probe_failure:
  assumes "which h ''cmake'' = Some cmd"
  shows "(spawn h (spawned s) (version_call cmd) = SpawnError
            \<longrightarrow> run_cmake h self s
                  = (Inl (RuntimeError
                            (''CMake must be installed to build the following extensions: ''
                               @ str_join '', '' (map ext_name (extensions self)))),
                     s))
         \<and> (spawn h (spawned s) (version_call cmd) = Exited rc out eff \<and> rc \<noteq> 0
            \<longrightarrow> fst (run_cmake h self s)
                  = Inl (CalledProcessError rc [cmd, ''--version''] (Some out))
                \<and> spawned (snd (run_cmake h self s)) = spawned s @ [version_call cmd])"
  by (simp add: run_cmake_Some [OF assms] cmake_missing_msg_def Let_def)

theorem probe_failure_witness:
  "run_cmake (posix_host_with ''Linux'' Map.empty (\<lambda>hist c. SpawnError)) posix_build (state0 [])
     = (Inl (RuntimeError ''CMake must be installed to build the following extensions: perspective''),
        state0 [])
   \<and> fst (run_cmake (posix_host_with ''Linux'' Map.empty (fake_tool ''cmake: broken'' 127 0 0))
            posix_build (state0 []))
     = Inl (CalledProcessError 127 [''/usr/bin/cmake'', ''--version''] (Some ''cmake: broken''))
   \<and> map call_argv
         (spawned (snd (run_cmake
            (posix_host_with ''Linux'' Map.empty (fake_tool ''cmake: broken'' 127 0 0))
            posix_build (state0 []))))
     = [[''/usr/bin/cmake'', ''--version'']]"
proof -
  let ?g = "posix_host_with ''Linux'' Map.empty (\<lambda>hist c. SpawnError)"
  let ?h = "posix_host_with ''Linux'' Map.empty (fake_tool ''cmake: broken'' 127 0 0)"
  have wg: "which ?g ''cmake'' = Some ''/usr/bin/cmake''"
    and wh: "which ?h ''cmake'' = Some ''/usr/bin/cmake''"
    by (simp_all add: posix_host_with_def posix_host_def)
  have sg: "spawn ?g (spawned (state0 [])) (version_call ''/usr/bin/cmake'') = SpawnError"
    by (simp add: posix_host_with_def)
  have sh: "spawn ?h (spawned (state0 [])) (version_call ''/usr/bin/cmake'')
              = Exited 127 ''cmake: broken'' (\<lambda>e. e)"
    by (simp add: posix_host_with_def fake_tool_def version_call_def output_call_def)
  have names: "map ext_name (extensions posix_build) = [''perspective'']"
    by (simp add: posix_build_def posix_ext_def PSPExtension_def)
  have s0: "spawned (state0 []) = []" by (simp add: state0_def)
  have va: "call_argv (version_call ''/usr/bin/cmake'') = [''/usr/bin/cmake'', ''--version'']"
    by (simp add: version_call_def output_call_def)
  from probe_failure [OF wg, where s = "state0 []" and self = posix_build]
    probe_failure [OF wh, where s = "state0 []" and self = posix_build and rc = 127
      and out = "''cmake: broken''" and eff = "\<lambda>e. e"]
    sg sh names s0 va
  show ?thesis by simp
qed

text \<open>
  A probe that exits with status 1 does not give the \<^verbatim>\<open>RuntimeError\<close> that names
  CMake: the \<^verbatim>\<open>CalledProcessError\<close> of \<^verbatim>\<open>check_output\<close> is raised.
\<close>

theorem probe_nonzero_counterexample:
  "fst (run_cmake (posix_host_with ''Linux'' Map.empty (fake_tool ''cmake: broken'' 1 0 0))
          posix_build (state0 []))
     = Inl (CalledProcessError 1 [''/usr/bin/cmake'', ''--version''] (Some ''cmake: broken''))"
proof -
  let ?h = "posix_host_with ''Linux'' Map.empty (fake_tool ''cmake: broken'' 1 0 0)"
  have wh: "which ?h ''cmake'' = Some ''/usr/bin/cmake''"
    by (simp add: posix_host_with_def posix_host_def)
  have sh: "spawn ?h (spawned (state0 [])) (version_call ''/usr/bin/cmake'')
              = Exited 1 ''cmake: broken'' (\<lambda>e. e)"
    by (simp add: posix_host_with_def fake_tool_def version_call_def output_call_def)
  show ?thesis
    by (simp add: run_cmake_Some [OF wh] sh)
qed


lemma LooseVersion_threshold: "LooseVersion ''3.1.0'' = [3, 1, 0]"
  by (simp add: LooseVersion_def is_digit_def digit_val_def)

lemma list_lt_threshold:
  "list_lt [major, minor, patch] [3, 1, 0]
     \<longleftrightarrow> major < 3 \<or> (major = 3 \<and> (minor < 1 \<or> (minor = 1 \<and> patch < 0)))"
  by auto

lemma check_version_windows_triple:
  assumes "platform_system h = ''Windows''" and "re_search out = Some g"
    and "LooseVersion g = [major, minor, patch]"
  shows "check_version h out =
           (if major < 3 \<or> (major = 3 \<and> (minor < 1 \<or> (minor = 1 \<and> patch < 0)))
            then Inl (RuntimeError ''CMake >= 3.1.0 is required on Windows'') else Inr ())"
proof -
  have "check_version h out =
          (if list_lt [major, minor, patch] [3, 1, 0]
           then Inl (RuntimeError cmake_too_old_msg) else Inr ())"
    unfolding check_version_def LooseVersion_threshold using assms by simp
  then show ?thesis
    unfolding list_lt_threshold cmake_too_old_msg_def .
qed

lemma check_version_elsewhere:
  "platform_system h \<noteq> ''Windows'' \<Longrightarrow> check_version h out = Inr ()"
  by (simp add: check_version_def)

text \<open>
  C7. Let the probe run and exit with status zero. On Windows, when the banner's version
  text reads as a triple, \<^verbatim>\<open>run_cmake\<close> raises the \<^verbatim>\<open>RuntimeError\<close> about
  CMake 3.1.0 exactly when the triple is below (3, 1, 0) in the lexicographic order, and
  then the probe is the only process started; a triple that is not below, 3.1.0 itself
  included, lets the build of the extensions go on. On every other host the build goes
  on whatever the banner is.
\<close>

theorem windows_minimum_version:
  assumes "which h ''cmake'' = Some cmd"
    and "spawn h (spawned s) (version_call cmd) = Exited 0 out eff"
  shows "(platform_system h = ''Windows'' \<and> re_search out = Some g
            \<and> LooseVersion g = [major, minor, patch]
            \<and> (major < 3 \<or> (major = 3 \<and> (minor < 1 \<or> (minor = 1 \<and> patch < 0))))
          \<longrightarrow> fst (run_cmake h self s)
                = Inl (RuntimeError ''CMake >= 3.1.0 is required on Windows'')
              \<and> spawned (snd (run_cmake h self s)) = spawned s @ [version_call cmd])
       \<and> (platform_system h = ''Windows'' \<and> re_search out = Some g
            \<and> LooseVersion g = [major, minor, patch]
            \<and> \<not> (major < 3 \<or> (major = 3 \<and> (minor < 1 \<or> (minor = 1 \<and> patch < 0))))
          \<longrightarrow> run_cmake h self s
                = build_all h (self\<lparr>cmake_cmd := Some cmd\<rparr>) (extensions self)
                    (s\<lparr>spawned := spawned s @ [version_call cmd],
                       exists_path := eff (exists_path s)\<rparr>))
       \<and> (platform_system h \<noteq> ''Windows''
          \<longrightarrow> run_cmake h self s
                = build_all h (self\<lparr>cmake_cmd := Some cmd\<rparr>) (extensions self)
                    (s\<lparr>spawned := spawned s @ [version_call cmd],
                       exists_path := eff (exists_path s)\<rparr>))"
proof (intro conjI impI)
  assume a: "platform_system h = ''Windows'' \<and> re_search out = Some g
            \<and> LooseVersion g = [major, minor, patch]
            \<and> (major < 3 \<or> (major = 3 \<and> (minor < 1 \<or> (minor = 1 \<and> patch < 0))))"
  then have "check_version h out = Inl (RuntimeError ''CMake >= 3.1.0 is required on Windows'')"
    using check_version_windows_triple [of h out g major minor patch] by simp
  then show "fst (run_cmake h self s) = Inl (RuntimeError ''CMake >= 3.1.0 is required on Windows'')"
    and "spawned (snd (run_cmake h self s)) = spawned s @ [version_call cmd]"
    by (simp_all add: run_cmake_Some [OF assms(1)] assms(2))
next
  assume a: "platform_system h = ''Windows'' \<and> re_search out = Some g
            \<and> LooseVersion g = [major, minor, patch]
            \<and> \<not> (major < 3 \<or> (major = 3 \<and> (minor < 1 \<or> (minor = 1 \<and> patch < 0))))"
  then have "check_version h out = Inr ()"
    using check_version_windows_triple [of h out g major minor patch] by simp
  then show "run_cmake h self s
                = build_all h (self\<lparr>cmake_cmd := Some cmd\<rparr>) (extensions self)
                    (s\<lparr>spawned := spawned s @ [version_call cmd],
                       exists_path := eff (exists_path s)\<rparr>)"
    by (simp add: run_cmake_Some [OF assms(1)] assms(2))
next
  assume "platform_system h \<noteq> ''Windows''"
  then have "check_version h out = Inr ()"
    by (rule check_version_elsewhere)
  then show "run_cmake h self s
                = build_all h (self\<lparr>cmake_cmd := Some cmd\<rparr>) (extensions self)
                    (s\<lparr>spawned := spawned s @ [version_call cmd],
                       exists_path := eff (exists_path s)\<rparr>)"
    by (simp add: run_cmake_Some [OF assms(1)] assms(2))
qed


lemma windows_cmake_args:
  "e ''PSP_GENERATOR'' = None \<Longrightarrow>
   cmake_args (windows_host_with e t) windows_build windows_ext =
     [''-DCMAKE_LIBRARY_OUTPUT_DIRECTORY=C:/repo/build/perspective/table'',
      ''-DCMAKE_BUILD_TYPE=Release'', ''-DPSP_CPP_BUILD=1'', ''-DPSP_WASM_BUILD=0'',
      ''-DPSP_PYTHON_BUILD=1'', ''-DPSP_PYTHON_VERSION=3.8'',
      ''-DPython_ADDITIONAL_VERSIONS=3.8'', ''-DPython_FIND_VERSION=3.8'',
      ''-DPython_EXECUTABLE=C:/Python38/python.exe'', ''-DPython_ROOT_DIR=C:/Python38'',
      ''-DPython_ROOT=C:/Python38'', ''-DPSP_CMAKE_MODULE_PATH=C:/repo/dist/cmake'',
      ''-DPSP_CPP_SRC=C:/repo/dist'', ''-DPSP_PYTHON_SRC=C:/repo/dist/../perspective'',
      ''-DCMAKE_LIBRARY_OUTPUT_DIRECTORY_RELEASE=C:/repo/build'', ''-G'',
      ''Visual Studio 15 2017'', ''-A'', ''x64'']"
  by (simp add: cmake_args_def cmake_args_common_def windows_host_with_def windows_host_def
        windows_build_def windows_ext_def PSPExtension_def extdir_of_def dirname_of_def
        join_nt_def cfg_of_def PYTHON_VERSION_def show_nat.simps digit_char_def
        replace_backslash_def backslash_def generator_def msvc_def str_upper_def to_upper_def)

lemma windows_build_args:
  "build_args (windows_host_with e t) windows_build =
     [''--config'', ''Release'', ''--'', ''/m:8'', ''/p:Configuration=Release'']"
  by (simp add: build_args_def windows_host_with_def windows_host_def windows_build_def
        cfg_of_def show_count_def show_nat.simps digit_char_def)

lemma fake_tool_windows_configure:
  "e ''PSP_GENERATOR'' = None \<Longrightarrow>
   fake_tool b rv rc rb hist
     (configure_call (windows_host_with e t) (windows_build\<lparr>cmake_cmd := Some ''C:/cmake/bin/cmake.exe''\<rparr>)
        windows_ext ''C:/cmake/bin/cmake.exe'')
     = Exited rc ''configure log'' (\<lambda>e. e)"
proof -
  assume e: "e ''PSP_GENERATOR'' = None"
  have w: "windows_build\<lparr>cmake_cmd := Some ''C:/cmake/bin/cmake.exe''\<rparr> = windows_build"
    by (simp add: windows_build_def)
  have src: "path_abspath (windows_host_with e t) (sourcedir windows_ext)
               = ''C:'' @ [backslash] @ ''repo'' @ [backslash] @ ''dist''"
    by (simp add: windows_host_with_def windows_host_def windows_ext_def PSPExtension_def)
  show ?thesis
    unfolding w using e
    by (simp add: configure_call_def merged_call_def fake_tool_def windows_cmake_args src
          backslash_def)
qed


lemma windows_probe:
  "which (windows_host_with e (fake_tool b rv rc rb)) ''cmake'' = Some ''C:/cmake/bin/cmake.exe''"
  "spawn (windows_host_with e (fake_tool b rv rc rb)) hist (version_call ''C:/cmake/bin/cmake.exe'')
     = Exited rv b (\<lambda>e. e)"
  "platform_system (windows_host_with e t) = ''Windows''"
  by (simp_all add: windows_host_with_def windows_host_def fake_tool_def version_call_def
        output_call_def)

lemma windows_build_all_ok:
  assumes "e ''PSP_GENERATOR'' = None"
  shows "fst (build_all (windows_host_with e (fake_tool b rv 0 0))
                (windows_build\<lparr>cmake_cmd := Some ''C:/cmake/bin/cmake.exe''\<rparr>)
                (extensions windows_build) s) = Inr ()"
    and "spawned (snd (build_all (windows_host_with e (fake_tool b rv 0 0))
                (windows_build\<lparr>cmake_cmd := Some ''C:/cmake/bin/cmake.exe''\<rparr>)
                (extensions windows_build) s))
          = spawned s
            @ [configure_call (windows_host_with e (fake_tool b rv 0 0))
                 (windows_build\<lparr>cmake_cmd := Some ''C:/cmake/bin/cmake.exe''\<rparr>) windows_ext
                 ''C:/cmake/bin/cmake.exe'',
               build_call (windows_host_with e (fake_tool b rv 0 0))
                 (windows_build\<lparr>cmake_cmd := Some ''C:/cmake/bin/cmake.exe''\<rparr>)
                 ''C:/cmake/bin/cmake.exe'']"
proof -
  let ?h = "windows_host_with e (fake_tool b rv 0 0)"
  let ?self = "windows_build\<lparr>cmake_cmd := Some ''C:/cmake/bin/cmake.exe''\<rparr>"
  have sp: "spawn ?h = fake_tool b rv 0 0"
    by (simp add: windows_host_with_def)
  have a: "cmake_cmd ?self = Some ''C:/cmake/bin/cmake.exe''" by simp
  have w: "?self = windows_build" by (simp add: windows_build_def)
  have ex: "extensions windows_build = [windows_ext]" by (simp add: windows_build_def)
  have ba: "''--version'' \<notin> set (build_args ?h ?self)"
    unfolding w by (simp add: windows_build_args)
  have r: "build_extension_cmake ?h ?self windows_ext s =
      (Inr (), (ensure_build_temp ?self s)
         \<lparr>spawned := spawned s @ [configure_call ?h ?self windows_ext ''C:/cmake/bin/cmake.exe''],
          exists_path := exists_path (ensure_build_temp ?self s),
          terminal := terminal s @ ''configure log'',
          spawned := spawned s @ [configure_call ?h ?self windows_ext ''C:/cmake/bin/cmake.exe'',
                                  build_call ?h ?self ''C:/cmake/bin/cmake.exe''],
          exists_path := exists_path (ensure_build_temp ?self s),
          terminal := terminal s @ ''configure log'' @ ''build log'',
          terminal := terminal s @ ''configure log'' @ ''build log'' @ [newline]\<rparr>)"
    using ba assms
    by (simp add: build_extension_cmake_Some [OF a] Let_def sp fake_tool_windows_configure
          fake_tool_build)
  show "fst (build_all ?h ?self (extensions windows_build) s) = Inr ()"
    unfolding ex by (simp add: r)
  show "spawned (snd (build_all ?h ?self (extensions windows_build) s))
          = spawned s @ [configure_call ?h ?self windows_ext ''C:/cmake/bin/cmake.exe'',
                         build_call ?h ?self ''C:/cmake/bin/cmake.exe'']"
    unfolding ex by (simp add: r)
qed

theorem windows_minimum_version_witness:
  "fst (run_cmake (windows_host_with Map.empty (fake_tool ''cmake version 3.0.2'' 0 0 0))
          windows_build (state0 []))
     = Inl (RuntimeError ''CMake >= 3.1.0 is required on Windows'')
   \<and> length (spawned (snd (run_cmake
          (windows_host_with Map.empty (fake_tool ''cmake version 3.0.2'' 0 0 0))
          windows_build (state0 [])))) = 1
   \<and> fst (run_cmake (windows_host_with Map.empty (fake_tool ''cmake version 3.1.0'' 0 0 0))
          windows_build (state0 []))
     = Inr ()
   \<and> length (spawned (snd (run_cmake
          (windows_host_with Map.empty (fake_tool ''cmake version 3.1.0'' 0 0 0))
          windows_build (state0 [])))) = 3
   \<and> fst (run_cmake (posix_host_with ''Linux'' Map.empty (fake_tool ''cmake version 2.8.12'' 0 0 0))
          (posix_build\<lparr>extensions := []\<rparr>) (state0 []))
     = Inr ()"
proof -
  let ?old = "windows_host_with Map.empty (fake_tool ''cmake version 3.0.2'' 0 0 0)"
  let ?new = "windows_host_with Map.empty (fake_tool ''cmake version 3.1.0'' 0 0 0)"
  let ?lin = "posix_host_with ''Linux'' Map.empty (fake_tool ''cmake version 2.8.12'' 0 0 0)"
  have s0: "spawned (state0 []) = []" by (simp add: state0_def)
  have p_old: "re_search ''cmake version 3.0.2'' = Some ''3.0.2''"
    and p_new: "re_search ''cmake version 3.1.0'' = Some ''3.1.0''"
    by (simp_all add: match_here_def is_digit_dot_def is_digit_def is_space_def)
  have v_old: "LooseVersion ''3.0.2'' = [3, 0, 2]"
    and v_new: "LooseVersion ''3.1.0'' = [3, 1, 0]"
    by (simp_all add: LooseVersion_def is_digit_def digit_val_def)
  have lin: "which ?lin ''cmake'' = Some ''/usr/bin/cmake''"
    "spawn ?lin (spawned (state0 [])) (version_call ''/usr/bin/cmake'')
       = Exited 0 ''cmake version 2.8.12'' (\<lambda>e. e)"
    "platform_system ?lin \<noteq> ''Windows''"
    by (simp_all add: posix_host_with_def posix_host_def fake_tool_def version_call_def
          output_call_def)
  have 1: "fst (run_cmake ?old windows_build (state0 []))
             = Inl (RuntimeError ''CMake >= 3.1.0 is required on Windows'')
           \<and> length (spawned (snd (run_cmake ?old windows_build (state0 [])))) = 1"
    using windows_minimum_version [OF windows_probe(1) windows_probe(2),
        where s = "state0 []" and self = windows_build and g = "''3.0.2''"
          and major = 3 and minor = 0 and patch = 2]
      p_old v_old s0
    by (simp add: windows_probe(3))
  have 2: "run_cmake ?new windows_build (state0 [])
             = build_all ?new (windows_build\<lparr>cmake_cmd := Some ''C:/cmake/bin/cmake.exe''\<rparr>)
                 (extensions windows_build)
                 ((state0 [])\<lparr>spawned := spawned (state0 []) @ [version_call ''C:/cmake/bin/cmake.exe''],
                    exists_path := (\<lambda>e. e) (exists_path (state0 []))\<rparr>)"
    using windows_minimum_version [OF windows_probe(1) windows_probe(2),
        where s = "state0 []" and self = windows_build and g = "''3.1.0''"
          and major = 3 and minor = 1 and patch = 0]
      p_new v_new
    by (simp add: windows_probe(3))
  have 3: "run_cmake ?lin (posix_build\<lparr>extensions := []\<rparr>) (state0 [])
             = build_all ?lin (posix_build\<lparr>extensions := [], cmake_cmd := Some ''/usr/bin/cmake''\<rparr>)
                 (extensions (posix_build\<lparr>extensions := []\<rparr>))
                 ((state0 [])\<lparr>spawned := spawned (state0 []) @ [version_call ''/usr/bin/cmake''],
                    exists_path := (\<lambda>e. e) (exists_path (state0 []))\<rparr>)"
    using windows_minimum_version [OF lin(1) lin(2), where self = "posix_build\<lparr>extensions := []\<rparr>"]
      lin(3)
    by simp
  show ?thesis
    using 1
    by (simp add: 2 3 windows_build_all_ok s0)
qed


text \<open>
  C8 (as amended). Let the probe run and exit with status zero. On Windows, a banner in
  which the pattern \<^verbatim>\<open>version\s*([\d.]+)\<close> matches nowhere makes \<^verbatim>\<open>run_cmake\<close>
  raise \<^verbatim>\<open>AttributeError\<close> (\<^verbatim>\<open>re.search\<close> returns \<^verbatim>\<open>None\<close> and
  \<^verbatim>\<open>.group\<close> is called on it), with the probe the only process started. On every
  other host the banner is not parsed and the build of the extensions goes on. No value
  stands for an unknown version.
\<close>

theorem unparsable_banner:
  assumes "which h ''cmake'' = Some cmd"
    and "spawn h (spawned s) (version_call cmd) = Exited 0 out eff"
  shows "(platform_system h = ''Windows'' \<and> re_search out = None
          \<longrightarrow> fst (run_cmake h self s) = Inl AttributeError
              \<and> spawned (snd (run_cmake h self s)) = spawned s @ [version_call cmd])
       \<and> (platform_system h \<noteq> ''Windows''
          \<longrightarrow> run_cmake h self s
                = build_all h (self\<lparr>cmake_cmd := Some cmd\<rparr>) (extensions self)
                    (s\<lparr>spawned := spawned s @ [version_call cmd],
                       exists_path := eff (exists_path s)\<rparr>))"
  by (simp add: run_cmake_Some [OF assms(1)] assms(2) check_version_def)

theorem unparsable_banner_witness:
  "fst (run_cmake (windows_host_with Map.empty (fake_tool ''cmake 3.18.4'' 0 0 0))
          windows_build (state0 []))
     = Inl AttributeError
   \<and> length (spawned (snd (run_cmake
          (windows_host_with Map.empty (fake_tool ''cmake 3.18.4'' 0 0 0))
          windows_build (state0 [])))) = 1
   \<and> fst (run_cmake (posix_host_with ''Linux'' Map.empty (fake_tool ''cmake 3.18.4'' 0 0 0))
          (posix_build\<lparr>extensions := []\<rparr>) (state0 []))
     = Inr ()"
proof -
  let ?win = "windows_host_with Map.empty (fake_tool ''cmake 3.18.4'' 0 0 0)"
  let ?lin = "posix_host_with ''Linux'' Map.empty (fake_tool ''cmake 3.18.4'' 0 0 0)"
  have s0: "spawned (state0 []) = []" by (simp add: state0_def)
  have none: "re_search ''cmake 3.18.4'' = None"
    by (simp add: match_here_def)
  have lin: "which ?lin ''cmake'' = Some ''/usr/bin/cmake''"
    "spawn ?lin (spawned (state0 [])) (version_call ''/usr/bin/cmake'')
       = Exited 0 ''cmake 3.18.4'' (\<lambda>e. e)"
    "platform_system ?lin \<noteq> ''Windows''"
    by (simp_all add: posix_host_with_def posix_host_def fake_tool_def version_call_def
          output_call_def)
  have 1: "fst (run_cmake ?win windows_build (state0 [])) = Inl AttributeError
           \<and> length (spawned (snd (run_cmake ?win windows_build (state0 [])))) = 1"
    using unparsable_banner [OF windows_probe(1) windows_probe(2),
        where s = "state0 []" and self = windows_build] none s0
    by (simp add: windows_probe(3))
  have 2: "run_cmake ?lin (posix_build\<lparr>extensions := []\<rparr>) (state0 [])
             = build_all ?lin (posix_build\<lparr>extensions := [], cmake_cmd := Some ''/usr/bin/cmake''\<rparr>)
                 (extensions (posix_build\<lparr>extensions := []\<rparr>))
                 ((state0 [])\<lparr>spawned := spawned (state0 []) @ [version_call ''/usr/bin/cmake''],
                    exists_path := (\<lambda>e. e) (exists_path (state0 []))\<rparr>)"
    using unparsable_banner [OF lin(1) lin(2), where self = "posix_build\<lparr>extensions := []\<rparr>"]
      lin(3)
    by simp
  show ?thesis
    using 1 by (simp add: 2)
qed

text \<open>
  On Windows a banner without the word \<^verbatim>\<open>version\<close> makes the probe raise
  \<^verbatim>\<open>AttributeError\<close>.
\<close>

theorem no_sentinel_counterexample:
  "platform_system (windows_host_with Map.empty (fake_tool ''cmake 3.18.4'' 0 0 0)) = ''Windows''
   \<and> re_search ''cmake 3.18.4'' = None
   \<and> fst (run_cmake (windows_host_with Map.empty (fake_tool ''cmake 3.18.4'' 0 0 0))
          windows_build (state0 []))
     = Inl AttributeError"
proof -
  have none: "re_search ''cmake 3.18.4'' = None"
    by (simp add: match_here_def)
  have cv: "check_version (windows_host_with Map.empty (fake_tool ''cmake 3.18.4'' 0 0 0))
              ''cmake 3.18.4'' = Inl AttributeError"
    unfolding check_version_def none by (simp add: windows_probe(3))
  have r: "fst (run_cmake (windows_host_with Map.empty (fake_tool ''cmake 3.18.4'' 0 0 0))
          windows_build (state0 [])) = Inl AttributeError"
    by (simp add: run_cmake_Some [OF windows_probe(1)] windows_probe(2) cv)
  from none r windows_probe(3) show ?thesis by blast
qed

subsection \<open>The banner of a release\<close>

text \<open>
  The banner \<^verbatim>\<open>cmake version a.b.c\<close>, followed by a line break and any text, is read
  as the triple \<open>(a, b, c)\<close>, for all numbers \<open>a\<close>, \<open>b\<close> and \<open>c\<close>.
\<close>

lemma digit_char_values:
  "digit_char 0 = CHR ''0''" "digit_char 1 = CHR ''1''" "digit_char 2 = CHR ''2''"
  "digit_char 3 = CHR ''3''" "digit_char 4 = CHR ''4''" "digit_char 5 = CHR ''5''"
  "digit_char 6 = CHR ''6''" "digit_char 7 = CHR ''7''" "digit_char 8 = CHR ''8''"
  "digit_char 9 = CHR ''9''"
  by (simp_all add: digit_char_def)

lemma digit_val_values:
  "digit_val CHR ''0'' = 0" "digit_val CHR ''1'' = 1" "digit_val CHR ''2'' = 2"
  "digit_val CHR ''3'' = 3" "digit_val CHR ''4'' = 4" "digit_val CHR ''5'' = 5"
  "digit_val CHR ''6'' = 6" "digit_val CHR ''7'' = 7" "digit_val CHR ''8'' = 8"
  "digit_val CHR ''9'' = 9"
  by (simp_all add: digit_val_def)

lemma is_digit_values:
  "is_digit CHR ''0''" "is_digit CHR ''1''" "is_digit CHR ''2''" "is_digit CHR ''3''"
  "is_digit CHR ''4''" "is_digit CHR ''5''" "is_digit CHR ''6''" "is_digit CHR ''7''"
  "is_digit CHR ''8''" "is_digit CHR ''9''"
  by (simp_all add: is_digit_def)

lemma digit_char_props:
  assumes "k < 10"
  shows "digit_val (digit_char k) = k" and "is_digit (digit_char k)"
proof -
  from assms have k: "k = 0 \<or> k = 1 \<or> k = 2 \<or> k = 3 \<or> k = 4 \<or> k = 5 \<or> k = 6
      \<or> k = 7 \<or> k = 8 \<or> k = 9"
    by arith
  from k show "digit_val (digit_char k) = k"
    by (elim disjE) (simp_all only: digit_char_values digit_val_values)
  from k show "is_digit (digit_char k)"
    by (elim disjE) (simp_all only: digit_char_values is_digit_values)
qed

lemma show_nat_is_digit: "c \<in> set (show_nat n) \<Longrightarrow> is_digit c"
  unfolding is_digit_def using show_nat_digits [of n] by blast

lemma show_nat_not_Nil: "show_nat n \<noteq> []"
  by (subst show_nat.simps) simp

lemma show_nat_value: "foldl (\<lambda>a c. 10 * a + digit_val c) 0 (show_nat n) = n"
proof (induction n rule: show_nat.induct)
  case (1 n)
  show ?case
  proof (cases "n < 10")
    case True
    then show ?thesis
      by (simp add: show_nat.simps [of n] digit_char_props)
  next
    case False
    have "n mod 10 < 10" by simp
    then have d: "digit_val (digit_char (n mod 10)) = n mod 10"
      by (rule digit_char_props)
    from False 1 have "foldl (\<lambda>a c. 10 * a + digit_val c) 0 (show_nat (n div 10)) = n div 10"
      by simp
    with False d show ?thesis
      by (simp add: show_nat.simps [of n])
  qed
qed

lemma loose_parse_run:
  assumes "\<forall>c \<in> set ds. is_digit c" and "ds \<noteq> []"
  shows "loose_parse acc (ds @ rest) =
           loose_parse
             (Some (foldl (\<lambda>a c. 10 * a + digit_val c) (case acc of None \<Rightarrow> 0 | Some n \<Rightarrow> n) ds))
             rest"
  using assms
proof (induction ds arbitrary: acc)
  case Nil
  then show ?case by simp
next
  case (Cons d ds)
  show ?case
  proof (cases "ds = []")
    case True
    with Cons.prems show ?thesis by simp
  next
    case False
    with Cons.prems Cons.IH [of "Some (10 * (case acc of None \<Rightarrow> 0 | Some n \<Rightarrow> n) + digit_val d)"]
    show ?thesis by simp
  qed
qed

lemma loose_parse_show_nat:
  "loose_parse None (show_nat n @ rest) = loose_parse (Some n) rest"
  using loose_parse_run [of "show_nat n" None rest]
  by (simp add: show_nat_is_digit show_nat_not_Nil show_nat_value)

lemma LooseVersion_triple:
  "LooseVersion (show_nat a @ ''.'' @ show_nat b @ ''.'' @ show_nat c) = [a, b, c]"
proof -
  have dot: "\<not> is_digit CHR ''.''" by (simp add: is_digit_def)
  have "loose_parse None (show_nat c) = [c]"
    using loose_parse_show_nat [of c "[]"] by simp
  with dot show ?thesis
    by (simp add: LooseVersion_def loose_parse_show_nat)
qed

lemma digit_dot_not_space: "is_digit_dot c \<Longrightarrow> \<not> is_space c"
  by (auto simp add: is_digit_dot_def is_digit_def is_space_def)

lemma re_search_banner:
  assumes "v \<noteq> []" and "\<forall>c \<in> set v. is_digit_dot c"
    and "rest = [] \<or> \<not> is_digit_dot (hd rest)"
  shows "re_search (''cmake version '' @ v @ rest) = Some v"
proof -
  from assms(1) obtain x xs where v: "v = x # xs" by (cases v) auto
  with assms(2) have x: "\<not> is_space x" by (simp add: digit_dot_not_space)
  have tw: "takeWhile is_digit_dot (v @ rest) = v"
  proof (cases rest)
    case Nil
    with assms(2) show ?thesis by simp
  next
    case (Cons r rs)
    with assms(2,3) show ?thesis by (simp add: takeWhile_append2)
  qed
  have "match_here (''version '' @ v @ rest) = Some v"
    using x assms(1) tw unfolding v
    by (simp add: match_here_def is_space_def)
  then show ?thesis
    by (simp add: match_here_def)
qed

lemma standard_banner_parses:
  "re_search (''cmake version '' @ show_nat a @ ''.'' @ show_nat b @ ''.'' @ show_nat c
                @ newline # rest)
     = Some (show_nat a @ ''.'' @ show_nat b @ ''.'' @ show_nat c)"
proof -
  have dd: "\<forall>x \<in> set (show_nat a @ ''.'' @ show_nat b @ ''.'' @ show_nat c). is_digit_dot x"
    by (auto simp add: is_digit_dot_def show_nat_is_digit)
  have nl: "\<not> is_digit_dot newline"
    by (simp add: is_digit_dot_def is_digit_def newline_def)
  have ne: "show_nat a @ ''.'' @ show_nat b @ ''.'' @ show_nat c \<noteq> []"
    by simp
  from re_search_banner [OF ne dd, of "newline # rest"] nl show ?thesis
    by simp
qed


text \<open>So on Windows the check of lines 147 to 152 decides every release banner by its
  triple.\<close>

lemma check_version_release:
  assumes "platform_system h = ''Windows''"
  shows "check_version h
           (''cmake version '' @ show_nat a @ ''.'' @ show_nat b @ ''.'' @ show_nat c
              @ newline # rest)
         = (if a < 3 \<or> (a = 3 \<and> (b < 1 \<or> (b = 1 \<and> c < 0)))
            then Inl (RuntimeError ''CMake >= 3.1.0 is required on Windows'') else Inr ())"
  using assms standard_banner_parses [of a b c rest] LooseVersion_triple [of a b c]
  by (rule check_version_windows_triple)

end
